theory Spec2Isabelle
  imports Complex_Main "HOL-Library.Word" "HOL-Library.Monad_Syntax"
begin

section \<open>Values shared by the scene manager and the view manager\<close>

text \<open>
  The two failures the C++ can run into without returning: a call through a null
  \<open>ShaderManager*\<close>, and an access to \<open>m_textureIDs\<close> outside the array.
\<close>

datatype error = NullPointer | OutOfBounds

type_synonym GLuint = "32 word"

text \<open>
  A \<open>float\<close> is modelled by the real number it denotes; a literal such as \<open>0.05f\<close> is
  the real \<open>0.05\<close>. The arguments of the functions below are numbers. What they compute
  may not be one: \<open>glm::normalize\<close> of the zero vector is NaN in every component. A
  vector or matrix of the sources that may hold a NaN has an \<open>option\<close> type here, and
  \<open>None\<close> is a value with a NaN among its components. A pointer to a \<open>ShaderManager\<close>
  is the address of the object, \<open>None\<close> for the null pointer.
\<close>

type_synonym ShaderManager_ptr = "nat option"

subsection \<open>The GLM types and functions the sources call\<close>

datatype vec2 = Vec2 real real
datatype vec3 = Vec3 real real real
datatype vec4 = Vec4 real real real real

text \<open>A \<open>glm::mat4\<close> is four columns, \<open>m[0]\<close> to \<open>m[3]\<close>.\<close>

datatype mat4 = Mat4 vec4 vec4 vec4 vec4

fun vec3_add :: "vec3 \<Rightarrow> vec3 \<Rightarrow> vec3" where
  "vec3_add (Vec3 a b c) (Vec3 x y z) = Vec3 (a + x) (b + y) (c + z)"

fun vec3_sub :: "vec3 \<Rightarrow> vec3 \<Rightarrow> vec3" where
  "vec3_sub (Vec3 a b c) (Vec3 x y z) = Vec3 (a - x) (b - y) (c - z)"

fun vec3_scale :: "vec3 \<Rightarrow> real \<Rightarrow> vec3" where
  "vec3_scale (Vec3 a b c) k = Vec3 (a * k) (b * k) (c * k)"

fun glm_dot :: "vec3 \<Rightarrow> vec3 \<Rightarrow> real" where
  "glm_dot (Vec3 a b c) (Vec3 x y z) = a * x + b * y + c * z"

fun glm_cross :: "vec3 \<Rightarrow> vec3 \<Rightarrow> vec3" where
  "glm_cross (Vec3 a b c) (Vec3 x y z) = Vec3 (b * z - y * c) (c * x - z * a) (a * y - x * b)"

text \<open>
  \<open>glm::normalize(v)\<close> is \<open>v * inversesqrt(dot(v, v))\<close>. For the zero vector that is
  zero times \<open>1 / 0\<close>, zero times infinity: each component of the result is NaN.
\<close>

definition glm_normalize :: "vec3 \<Rightarrow> vec3 option" where
  "glm_normalize v =
     (if glm_dot v v = 0 then None else Some (vec3_scale v (1 / sqrt (glm_dot v v))))"

definition glm_radians :: "real \<Rightarrow> real" where
  "glm_radians degrees = degrees * (pi / 180)"

fun vec4_add :: "vec4 \<Rightarrow> vec4 \<Rightarrow> vec4" where
  "vec4_add (Vec4 a b c d) (Vec4 x y z w) = Vec4 (a + x) (b + y) (c + z) (d + w)"

fun vec4_scale :: "vec4 \<Rightarrow> real \<Rightarrow> vec4" where
  "vec4_scale (Vec4 a b c d) k = Vec4 (a * k) (b * k) (c * k) (d * k)"

text \<open>\<open>m * v\<close>: the combination of the columns of \<open>m\<close> by the components of \<open>v\<close>.\<close>

fun mat4_apply :: "mat4 \<Rightarrow> vec4 \<Rightarrow> vec4" where
  "mat4_apply (Mat4 a0 a1 a2 a3) (Vec4 x y z w) =
     vec4_add (vec4_add (vec4_add (vec4_scale a0 x) (vec4_scale a1 y)) (vec4_scale a2 z))
       (vec4_scale a3 w)"

text \<open>\<open>m1 * m2\<close>: column \<open>i\<close> of the product is \<open>m1\<close> applied to column \<open>i\<close> of \<open>m2\<close>.\<close>

fun mat4_mul :: "mat4 \<Rightarrow> mat4 \<Rightarrow> mat4" where
  "mat4_mul m1 (Mat4 b0 b1 b2 b3) =
     Mat4 (mat4_apply m1 b0) (mat4_apply m1 b1) (mat4_apply m1 b2) (mat4_apply m1 b3)"

text \<open>
  The product when a factor may hold a NaN. A sum or a product with a NaN operand is
  NaN, and each entry of a row of \<open>m1\<close> meets each column of \<open>m2\<close>: a NaN in a factor
  gives a NaN in the product.
\<close>

fun mat4_mul_nan :: "mat4 option \<Rightarrow> mat4 option \<Rightarrow> mat4 option" where
  "mat4_mul_nan (Some m1) (Some m2) = Some (mat4_mul m1 m2)"
| "mat4_mul_nan m1 m2 = None"

definition mat4_identity :: mat4 where
  "mat4_identity = Mat4 (Vec4 1 0 0 0) (Vec4 0 1 0 0) (Vec4 0 0 1 0) (Vec4 0 0 0 1)"

text \<open>\<open>glm::scale(v)\<close>, \<open>glm::translate(v)\<close> and \<open>glm::rotate(angle, v)\<close> of
  \<open>glm/gtx/transform.hpp\<close>: the transformation applied to the identity matrix.
  \<open>glm::rotate\<close> first normalizes the axis it is given; \<open>rotate_normalized\<close> is what it
  does with the normalized axis.\<close>

fun glm_scale :: "vec3 \<Rightarrow> mat4" where
  "glm_scale (Vec3 x y z) =
     (case mat4_identity of Mat4 m0 m1 m2 m3 \<Rightarrow>
        Mat4 (vec4_scale m0 x) (vec4_scale m1 y) (vec4_scale m2 z) m3)"

fun glm_translate :: "vec3 \<Rightarrow> mat4" where
  "glm_translate (Vec3 x y z) =
     (case mat4_identity of Mat4 m0 m1 m2 m3 \<Rightarrow>
        Mat4 m0 m1 m2
          (vec4_add (vec4_add (vec4_add (vec4_scale m0 x) (vec4_scale m1 y)) (vec4_scale m2 z)) m3))"

definition rotate_normalized :: "real \<Rightarrow> vec3 \<Rightarrow> mat4" where
  "rotate_normalized angle axis =
     (let c = cos angle; s = sin angle in
      case axis of Vec3 ax ay az \<Rightarrow>
      case vec3_scale (Vec3 ax ay az) (1 - c) of Vec3 t0 t1 t2 \<Rightarrow>
      case mat4_identity of Mat4 m0 m1 m2 m3 \<Rightarrow>
        Mat4
          (vec4_add (vec4_add (vec4_scale m0 (c + t0 * ax)) (vec4_scale m1 (t0 * ay + s * az)))
             (vec4_scale m2 (t0 * az - s * ay)))
          (vec4_add (vec4_add (vec4_scale m0 (t1 * ax - s * az)) (vec4_scale m1 (c + t1 * ay)))
             (vec4_scale m2 (t1 * az + s * ax)))
          (vec4_add (vec4_add (vec4_scale m0 (t2 * ax + s * ay)) (vec4_scale m1 (t2 * ay - s * ax)))
             (vec4_scale m2 (c + t2 * az)))
          m3)"

definition glm_rotate :: "real \<Rightarrow> vec3 \<Rightarrow> mat4 option" where
  "glm_rotate angle v = map_option (rotate_normalized angle) (glm_normalize v)"

text \<open>\<open>glm::perspective\<close> and \<open>glm::lookAt\<close> (right-handed, depth range -1 to 1,
  GLM's defaults) and \<open>glm::ortho\<close>. \<open>glm::lookAt\<close> normalizes twice: the direction
  from the eye to the centre, and the cross product of that direction and \<open>up\<close>, which
  is the zero vector when the two are parallel.\<close>

definition glm_perspective :: "real \<Rightarrow> real \<Rightarrow> real \<Rightarrow> real \<Rightarrow> mat4" where
  "glm_perspective fovy aspect zNear zFar =
     (let tanHalfFovy = tan (fovy / 2) in
      Mat4 (Vec4 (1 / (aspect * tanHalfFovy)) 0 0 0)
           (Vec4 0 (1 / tanHalfFovy) 0 0)
           (Vec4 0 0 (- (zFar + zNear) / (zFar - zNear)) (- 1))
           (Vec4 0 0 (- (2 * zFar * zNear) / (zFar - zNear)) 0))"

definition glm_lookAt :: "vec3 \<Rightarrow> vec3 \<Rightarrow> vec3 \<Rightarrow> mat4 option" where
  "glm_lookAt eye center up =
     do {
       f \<leftarrow> glm_normalize (vec3_sub center eye);
       s \<leftarrow> glm_normalize (glm_cross f up);
       let u = glm_cross s f;
       case (s, u, f) of (Vec3 sx sy sz, Vec3 ux uy uz, Vec3 fx fy fz) \<Rightarrow>
         Some (Mat4 (Vec4 sx ux (- fx) 0)
                    (Vec4 sy uy (- fy) 0)
                    (Vec4 sz uz (- fz) 0)
                    (Vec4 (- glm_dot s eye) (- glm_dot u eye) (glm_dot f eye) 1))
     }"

definition glm_ortho :: "real \<Rightarrow> real \<Rightarrow> real \<Rightarrow> real \<Rightarrow> real \<Rightarrow> real \<Rightarrow> mat4" where
  "glm_ortho lft rgt btm tp zNear zFar =
     Mat4 (Vec4 (2 / (rgt - lft)) 0 0 0)
          (Vec4 0 (2 / (tp - btm)) 0 0)
          (Vec4 0 0 (- 2 / (zFar - zNear)) 0)
          (Vec4 (- (rgt + lft) / (rgt - lft)) (- (tp + btm) / (tp - btm))
             (- (zFar + zNear) / (zFar - zNear)) 1)"

text \<open>\<open>glm::clamp(x, minVal, maxVal)\<close> is \<open>min(max(x, minVal), maxVal)\<close>.\<close>

definition glm_clamp :: "real \<Rightarrow> real \<Rightarrow> real \<Rightarrow> real" where
  "glm_clamp x minVal maxVal = min (max x minVal) maxVal"

subsection \<open>The graphics context, the shader programs and the mesh service\<close>

text \<open>The value a named uniform of a shader program holds; \<open>UNaN\<close> is a vector or
  matrix with a NaN among its components.\<close>

datatype uvalue =
    UInt int
  | UFloat real
  | UVec2 vec2
  | UVec3 vec3
  | UVec4 vec4
  | UMat4 mat4
  | USampler2D int
  | UNaN

fun uniform_vec3 :: "vec3 option \<Rightarrow> uvalue" where
  "uniform_vec3 (Some v) = UVec3 v"
| "uniform_vec3 None = UNaN"

fun uniform_mat4 :: "mat4 option \<Rightarrow> uvalue" where
  "uniform_mat4 (Some m) = UMat4 m"
| "uniform_mat4 None = UNaN"

text \<open>
  Every call the sources make into OpenGL, into a \<open>ShaderManager\<close> (named by its
  address), into \<open>ShapeMeshes\<close> and into the image decoder, in the order it is made.
\<close>

datatype call =
    GL_GenTextures GLuint
  | GL_BindTexture GLuint
  | GL_ActiveTexture int
  | GL_TexParameteri string string
  | GL_TexImage2D string int int
  | GL_GenerateMipmap
  | GL_DepthMask bool
  | GL_GetViewport
  | GL_Viewport int int int int
  | GL_BindFramebuffer GLuint
  | GL_ClearDepth
  | GL_EnableDepthTest
  | STBI_image_free
  | Shader_use nat
  | Shader_set nat string uvalue
  | DrawPlaneMesh
  | DrawCylinderMesh bool bool bool
  | DrawTaperedCylinderMesh bool bool bool

text \<open>
  The state outside the two managers: the OpenGL context (viewport, bound framebuffer,
  active texture unit, the 2D texture bound to each unit, depth test and depth mask),
  the uniforms of each shader program, and the log of the calls made so far.
\<close>

record World =
  viewport :: "int \<times> int \<times> int \<times> int"
  framebuffer :: GLuint
  activeTexture :: int
  texture2D :: "int \<Rightarrow> GLuint"
  depthTest :: bool
  depthMask :: bool
  uniforms :: "nat \<Rightarrow> string \<rightharpoonup> uvalue"
  calls :: "call list"

definition logged :: "call \<Rightarrow> World \<Rightarrow> World" where
  "logged c w = w\<lparr>calls := calls w @ [c]\<rparr>"

text \<open>The calls made between an earlier world and a later one.\<close>

definition emitted :: "World \<Rightarrow> World \<Rightarrow> call list" where
  "emitted w w' = drop (length (calls w)) (calls w')"

definition glActiveTexture :: "int \<Rightarrow> World \<Rightarrow> World" where
  "glActiveTexture unit w = logged (GL_ActiveTexture unit) (w\<lparr>activeTexture := unit\<rparr>)"

definition glBindTexture :: "GLuint \<Rightarrow> World \<Rightarrow> World" where
  "glBindTexture t w =
     logged (GL_BindTexture t) (w\<lparr>texture2D := (texture2D w)(activeTexture w := t)\<rparr>)"

definition glDepthMask :: "bool \<Rightarrow> World \<Rightarrow> World" where
  "glDepthMask b w = logged (GL_DepthMask b) (w\<lparr>depthMask := b\<rparr>)"

definition glViewport :: "int \<Rightarrow> int \<Rightarrow> int \<Rightarrow> int \<Rightarrow> World \<Rightarrow> World" where
  "glViewport x y width height w =
     logged (GL_Viewport x y width height) (w\<lparr>viewport := (x, y, width, height)\<rparr>)"

definition glBindFramebuffer :: "GLuint \<Rightarrow> World \<Rightarrow> World" where
  "glBindFramebuffer fbo w = logged (GL_BindFramebuffer fbo) (w\<lparr>framebuffer := fbo\<rparr>)"

definition glEnableDepthTest :: "World \<Rightarrow> World" where
  "glEnableDepthTest w = logged GL_EnableDepthTest (w\<lparr>depthTest := True\<rparr>)"

text \<open>A uniform setter of the \<open>ShaderManager\<close> at address \<open>p\<close>.\<close>

definition setUniform :: "nat \<Rightarrow> string \<Rightarrow> uvalue \<Rightarrow> World \<Rightarrow> World" where
  "setUniform p name v w =
     logged (Shader_set p name v) (w\<lparr>uniforms := (uniforms w)(p := (uniforms w p)(name \<mapsto> v))\<rparr>)"

text \<open>A method call through a pointer that the source does not check: null fails.\<close>

definition deref :: "ShaderManager_ptr \<Rightarrow> (nat \<Rightarrow> World \<Rightarrow> World) \<Rightarrow> World \<Rightarrow> error + World" where
  "deref ptr method w = (case ptr of None \<Rightarrow> Inl NullPointer | Some p \<Rightarrow> Inr (method p w))"

text \<open>Statements in sequence: the first failure ends the function.\<close>

fun seq :: "(World \<Rightarrow> error + World) list \<Rightarrow> World \<Rightarrow> error + World" where
  "seq [] w = Inr w"
| "seq (stmt # rest) w = (case stmt w of Inl e \<Rightarrow> Inl e | Inr w' \<Rightarrow> seq rest w')"

definition ok :: "(World \<Rightarrow> World) \<Rightarrow> World \<Rightarrow> error + World" where
  "ok stmt w = Inr (stmt w)"

section \<open>ViewManager: the ripple amplitude\<close>

text \<open>
  The members of \<open>ViewManager\<close> (ViewManager.h) that the projection keys and the ripple
  controls use. The camera, \<open>m_currentVelocity\<close> and the rates of
  \<open>ProcessSmoothMovement\<close> are left out: that function reads and writes only them.
\<close>

record ViewManager =
  m_pShaderManager :: ShaderManager_ptr
  m_pWindow :: bool
  m_bPerspectiveProjection :: bool
  m_bPKeyPressed :: bool
  m_bOKeyPressed :: bool
  m_rippleAmplitude :: real
  m_rippleStep :: real
  m_rippleMin :: real
  m_rippleMax :: real

text \<open>The constructor, with the default member initializers of ViewManager.h
  (\<open>m_rippleMin = 0.0f\<close>, \<open>m_rippleMax = 0.2f\<close>).\<close>

definition ViewManager_ctor :: "ShaderManager_ptr \<Rightarrow> ViewManager" where
  "ViewManager_ctor pShaderManager =
     \<lparr>m_pShaderManager = pShaderManager,
      m_pWindow = False,
      m_bPerspectiveProjection = True,
      m_bPKeyPressed = False,
      m_bOKeyPressed = False,
      m_rippleAmplitude = 0.10,
      m_rippleStep = 0.01,
      m_rippleMin = 0.0,
      m_rippleMax = 0.2\<rparr>"

definition CreateDisplayWindow :: "bool \<Rightarrow> ViewManager \<Rightarrow> ViewManager" where
  "CreateDisplayWindow created vm = (if created then vm\<lparr>m_pWindow := True\<rparr> else vm)"

datatype key = KEY_P | KEY_O | KEY_I | KEY_U

text \<open>
  What one frame reads from outside: which keys \<open>glfwGetKey\<close> reports as pressed, and
  the camera's view matrix, zoom, position and front vector.
\<close>

record frame_input =
  pressed :: "key \<Rightarrow> bool"
  cam_view :: mat4
  cam_zoom :: real
  cam_position :: vec3
  cam_front :: vec3

definition ProcessProjectionKeys :: "(key \<Rightarrow> bool) \<Rightarrow> ViewManager \<Rightarrow> ViewManager" where
  "ProcessProjectionKeys keys vm =
     (let vm1 =
        (if keys KEY_P then
           (if \<not> m_bPKeyPressed vm
            then vm\<lparr>m_bPerspectiveProjection := True, m_bPKeyPressed := True\<rparr> else vm)
         else vm\<lparr>m_bPKeyPressed := False\<rparr>)
      in
        (if keys KEY_O then
           (if \<not> m_bOKeyPressed vm1
            then vm1\<lparr>m_bPerspectiveProjection := False, m_bOKeyPressed := True\<rparr> else vm1)
         else vm1\<lparr>m_bOKeyPressed := False\<rparr>))"

text \<open>
  \<open>fl\<close> is the rounding of a float addition or subtraction to the nearest \<open>float\<close>; the
  model leaves it open.
\<close>

definition ProcessRippleControls ::
  "(real \<Rightarrow> real) \<Rightarrow> (key \<Rightarrow> bool) \<Rightarrow> ViewManager \<Rightarrow> ViewManager" where
  "ProcessRippleControls fl keys vm =
     (if \<not> m_pWindow vm then vm
      else
        let vm1 =
          (if keys KEY_I
           then vm\<lparr>m_rippleAmplitude :=
                  glm_clamp (fl (m_rippleAmplitude vm + m_rippleStep vm)) (m_rippleMin vm) (m_rippleMax vm)\<rparr>
           else vm)
        in
          (if keys KEY_U
           then vm1\<lparr>m_rippleAmplitude :=
                  glm_clamp (fl (m_rippleAmplitude vm1 - m_rippleStep vm1)) (m_rippleMin vm1) (m_rippleMax vm1)\<rparr>
           else vm1))"

text \<open>\<open>ProcessKeyboardEvents\<close>, without the escape key (it only asks the window to close)
  and without \<open>ProcessSmoothMovement\<close> (it only moves the camera).\<close>

definition ProcessKeyboardEvents ::
  "(real \<Rightarrow> real) \<Rightarrow> (key \<Rightarrow> bool) \<Rightarrow> ViewManager \<Rightarrow> ViewManager" where
  "ProcessKeyboardEvents fl keys vm = ProcessRippleControls fl keys (ProcessProjectionKeys keys vm)"

definition PrepareSceneView ::
  "(real \<Rightarrow> real) \<Rightarrow> frame_input \<Rightarrow> ViewManager \<times> World \<Rightarrow> ViewManager \<times> World" where
  "PrepareSceneView fl inp st =
     (case st of (vm0, w) \<Rightarrow>
      let vm = ProcessKeyboardEvents fl (pressed inp) vm0;
          view = cam_view inp;
          projection =
            (if m_bPerspectiveProjection vm
             then glm_perspective (glm_radians (cam_zoom inp)) (1000 / 800) 0.1 100.0
             else glm_ortho (- 10.0) 10.0 (- 10.0) 10.0 0.1 100.0)
      in
        (vm,
         case m_pShaderManager vm of
           None \<Rightarrow> w
         | Some p \<Rightarrow>
             (setUniform p ''spotLight.direction'' (uniform_vec3 (glm_normalize (cam_front inp)))
               (setUniform p ''spotLight.position'' (UVec3 (cam_position inp))
                 (setUniform p ''rippleAmplitude'' (UFloat (m_rippleAmplitude vm))
                   (setUniform p ''viewPosition'' (UVec3 (cam_position inp))
                     (setUniform p ''projection'' (UMat4 projection)
                       (setUniform p ''view'' (UMat4 view) w))))))))"

text \<open>The frames of a run, one \<open>PrepareSceneView\<close> each, from a given state.\<close>

fun frames ::
  "(real \<Rightarrow> real) \<Rightarrow> frame_input list \<Rightarrow> ViewManager \<times> World \<Rightarrow> ViewManager \<times> World" where
  "frames fl [] st = st"
| "frames fl (inp # inps) st = frames fl inps (PrepareSceneView fl inp st)"

text \<open>The values a list of calls writes to the uniform \<open>rippleAmplitude\<close> of shader \<open>p\<close>.\<close>

fun ripple_pushes :: "nat \<Rightarrow> call list \<Rightarrow> real list" where
  "ripple_pushes p [] = []"
| "ripple_pushes p (Shader_set q name (UFloat a) # cs) =
     (if q = p \<and> name = ''rippleAmplitude'' then a # ripple_pushes p cs else ripple_pushes p cs)"
| "ripple_pushes p (c # cs) = ripple_pushes p cs"

definition in_ripple_range :: "real \<Rightarrow> bool" where
  "in_ripple_range a = (0.0 \<le> a \<and> a \<le> 0.2)"

definition ripple_inv :: "ViewManager \<Rightarrow> bool" where
  "ripple_inv vm =
     (m_rippleStep vm = 0.01 \<and> m_rippleMin vm = 0.0 \<and> m_rippleMax vm = 0.2 \<and>
      in_ripple_range (m_rippleAmplitude vm))"

section \<open>SceneManager\<close>

text \<open>
  Modelled from the spec: SceneManager.h, which declares \<open>OBJECT_MATERIAL\<close>,
  \<open>TEXTURE_INFO\<close>, the members of the class and the size of \<open>m_textureIDs\<close>, is not
  among the sources. A material is a tag, two colours and a shininess; a texture entry
  is a tag and a graphics handle; the array holds 16 entries. The members are those
  that SceneManager.cpp reads and writes, with the types it uses them at.
\<close>

record OBJECT_MATERIAL =
  diffuseColor :: vec3
  specularColor :: vec3
  shininess :: real
  tag :: string

record TEXTURE_INFO =
  ID :: GLuint
  tag :: string

definition texture_capacity :: int where
  "texture_capacity = 16"

record SceneManager =
  m_pShaderManager :: ShaderManager_ptr
  m_textureIDs :: "nat \<Rightarrow> TEXTURE_INFO"
  m_loadedTextures :: int
  m_objectMaterials :: "OBJECT_MATERIAL list"
  m_shadowFBO :: GLuint
  m_shadowDepthTexture :: GLuint
  m_shadowMapWidth :: int
  m_shadowMapHeight :: int
  m_pDepthShaderManager :: ShaderManager_ptr
  m_spotLightSpaceMatrix :: "mat4 option"

text \<open>
  The constructor. The entries of \<open>m_textureIDs\<close> are default-initialized: the tags
  are empty and the handles are whatever the memory held, \<open>garbage\<close>.
\<close>

definition SceneManager_ctor :: "ShaderManager_ptr \<Rightarrow> (nat \<Rightarrow> GLuint) \<Rightarrow> SceneManager" where
  "SceneManager_ctor pShaderManager garbage =
     \<lparr>m_pShaderManager = pShaderManager,
      m_textureIDs = (\<lambda>i. \<lparr>ID = garbage i, tag = []\<rparr>),
      m_loadedTextures = 0,
      m_objectMaterials = [],
      m_shadowFBO = 0,
      m_shadowDepthTexture = 0,
      m_shadowMapWidth = 2048,
      m_shadowMapHeight = 2048,
      m_pDepthShaderManager = None,
      m_spotLightSpaceMatrix = Some mat4_identity\<rparr>"

subsection \<open>The methods of ShaderManager, called through a pointer\<close>

definition setIntValue :: "ShaderManager_ptr \<Rightarrow> string \<Rightarrow> int \<Rightarrow> World \<Rightarrow> error + World" where
  "setIntValue ptr name v = deref ptr (\<lambda>p. setUniform p name (UInt v))"

definition setFloatValue :: "ShaderManager_ptr \<Rightarrow> string \<Rightarrow> real \<Rightarrow> World \<Rightarrow> error + World" where
  "setFloatValue ptr name v = deref ptr (\<lambda>p. setUniform p name (UFloat v))"

definition setVec2Value :: "ShaderManager_ptr \<Rightarrow> string \<Rightarrow> vec2 \<Rightarrow> World \<Rightarrow> error + World" where
  "setVec2Value ptr name v = deref ptr (\<lambda>p. setUniform p name (UVec2 v))"

definition setVec3Value :: "ShaderManager_ptr \<Rightarrow> string \<Rightarrow> vec3 \<Rightarrow> World \<Rightarrow> error + World" where
  "setVec3Value ptr name v = deref ptr (\<lambda>p. setUniform p name (UVec3 v))"

definition setVec4Value :: "ShaderManager_ptr \<Rightarrow> string \<Rightarrow> vec4 \<Rightarrow> World \<Rightarrow> error + World" where
  "setVec4Value ptr name v = deref ptr (\<lambda>p. setUniform p name (UVec4 v))"

definition setMat4Value ::
  "ShaderManager_ptr \<Rightarrow> string \<Rightarrow> mat4 option \<Rightarrow> World \<Rightarrow> error + World" where
  "setMat4Value ptr name v = deref ptr (\<lambda>p. setUniform p name (uniform_mat4 v))"

definition setSampler2DValue :: "ShaderManager_ptr \<Rightarrow> string \<Rightarrow> int \<Rightarrow> World \<Rightarrow> error + World" where
  "setSampler2DValue ptr name v = deref ptr (\<lambda>p. setUniform p name (USampler2D v))"

definition use :: "ShaderManager_ptr \<Rightarrow> World \<Rightarrow> error + World" where
  "use ptr = deref ptr (\<lambda>p. logged (Shader_use p))"

subsection \<open>The texture registry\<close>

text \<open>An index into \<open>m_textureIDs\<close> that lies inside the array.\<close>

definition in_bounds :: "int \<Rightarrow> bool" where
  "in_bounds i = (0 \<le> i \<and> i < texture_capacity)"

text \<open>
  \<open>CreateGLTexture(filename, tag)\<close>. \<open>stbi_load\<close> is the image decoder: the width,
  height and channel count of the file, or \<open>None\<close> when it cannot be read;
  \<open>textureID\<close> is the name \<open>glGenTextures\<close> hands out. The write to
  \<open>m_textureIDs[m_loadedTextures]\<close> has no check in the source: outside the array the
  behaviour is undefined, \<open>Inl OutOfBounds\<close> here.
\<close>

definition CreateGLTexture ::
  "(string \<Rightarrow> (int \<times> int \<times> int) option) \<Rightarrow> GLuint \<Rightarrow> string \<Rightarrow> string \<Rightarrow>
     SceneManager \<times> World \<Rightarrow> error + (bool \<times> SceneManager \<times> World)" where
  "CreateGLTexture stbi_load textureID filename tg st =
     (case st of (s, w) \<Rightarrow>
      case stbi_load filename of
        None \<Rightarrow> Inr (False, s, w)
      | Some (width, height, colorChannels) \<Rightarrow>
          let w1 = logged (GL_TexParameteri ''GL_TEXTURE_MAG_FILTER'' ''GL_LINEAR'')
                    (logged (GL_TexParameteri ''GL_TEXTURE_MIN_FILTER'' ''GL_LINEAR'')
                      (logged (GL_TexParameteri ''GL_TEXTURE_WRAP_T'' ''GL_REPEAT'')
                        (logged (GL_TexParameteri ''GL_TEXTURE_WRAP_S'' ''GL_REPEAT'')
                          (glBindTexture textureID (logged (GL_GenTextures textureID) w)))));
              register = (\<lambda>w2.
                let w3 = glBindTexture 0 (logged STBI_image_free (logged GL_GenerateMipmap w2));
                    i = m_loadedTextures s
                in
                  if in_bounds i then
                    Inr (True,
                         s\<lparr>m_textureIDs :=
                             (m_textureIDs s)(nat i := (m_textureIDs s (nat i))\<lparr>ID := textureID, tag := tg\<rparr>),
                           m_loadedTextures := i + 1\<rparr>,
                         w3)
                  else Inl OutOfBounds)
          in
            if colorChannels = 3 then register (logged (GL_TexImage2D ''GL_RGB8'' width height) w1)
            else if colorChannels = 4 then register (logged (GL_TexImage2D ''GL_RGBA8'' width height) w1)
            else Inr (False, s, w1))"

function BindGLTextures_loop :: "SceneManager \<Rightarrow> int \<Rightarrow> World \<Rightarrow> error + World" where
  "BindGLTextures_loop s i w =
     (if i < m_loadedTextures s then
        (if in_bounds i
         then BindGLTextures_loop s (i + 1)
                (glBindTexture (ID (m_textureIDs s (nat i))) (glActiveTexture i w))
         else Inl OutOfBounds)
      else Inr w)"
  by pat_completeness auto
termination
  by (relation "measure (\<lambda>(s, i, w). nat (m_loadedTextures s - i))") auto

declare BindGLTextures_loop.simps [simp del]

definition BindGLTextures :: "SceneManager \<Rightarrow> World \<Rightarrow> error + World" where
  "BindGLTextures s w =
     (case BindGLTextures_loop s 0 w of
        Inl e \<Rightarrow> Inl e
      | Inr w' \<Rightarrow>
          (case m_pShaderManager s of
             None \<Rightarrow> Inr w'
           | Some p \<Rightarrow> setSampler2DValue (m_pShaderManager s) ''objectTexture'' 0 w'))"

text \<open>The loop of \<open>FindTextureID\<close>: the handle of the first entry with the tag,
  converted to \<open>int\<close>, or -1.\<close>

function FindTextureID_loop :: "SceneManager \<Rightarrow> string \<Rightarrow> int \<Rightarrow> error + int" where
  "FindTextureID_loop s tg index =
     (if index < m_loadedTextures s then
        (if in_bounds index then
           (if TEXTURE_INFO.tag (m_textureIDs s (nat index)) = tg
            then Inr (sint (ID (m_textureIDs s (nat index))))
            else FindTextureID_loop s tg (index + 1))
         else Inl OutOfBounds)
      else Inr (- 1))"
  by pat_completeness auto
termination
  by (relation "measure (\<lambda>(s, tg, index). nat (m_loadedTextures s - index))") auto

declare FindTextureID_loop.simps [simp del]

definition FindTextureID :: "SceneManager \<Rightarrow> string \<Rightarrow> error + int" where
  "FindTextureID s tg = FindTextureID_loop s tg 0"

function FindTextureSlot_loop :: "SceneManager \<Rightarrow> string \<Rightarrow> int \<Rightarrow> error + int" where
  "FindTextureSlot_loop s tg index =
     (if index < m_loadedTextures s then
        (if in_bounds index then
           (if TEXTURE_INFO.tag (m_textureIDs s (nat index)) = tg
            then Inr index
            else FindTextureSlot_loop s tg (index + 1))
         else Inl OutOfBounds)
      else Inr (- 1))"
  by pat_completeness auto
termination
  by (relation "measure (\<lambda>(s, tg, index). nat (m_loadedTextures s - index))") auto

declare FindTextureSlot_loop.simps [simp del]

definition FindTextureSlot :: "SceneManager \<Rightarrow> string \<Rightarrow> error + int" where
  "FindTextureSlot s tg = FindTextureSlot_loop s tg 0"

text \<open>A run of \<open>CreateGLTexture\<close> calls, each given as (handle, filename, tag); the
  run stops at a failure of the array access, and collects what each call returned.\<close>

fun CreateGLTextures ::
  "(string \<Rightarrow> (int \<times> int \<times> int) option) \<Rightarrow> (GLuint \<times> string \<times> string) list \<Rightarrow>
     SceneManager \<times> World \<Rightarrow> error + (bool list \<times> SceneManager \<times> World)" where
  "CreateGLTextures stbi_load [] st = Inr ([], st)"
| "CreateGLTextures stbi_load ((textureID, filename, tg) # rest) st =
     (case CreateGLTexture stbi_load textureID filename tg st of
        Inl e \<Rightarrow> Inl e
      | Inr (b, st') \<Rightarrow>
          (case CreateGLTextures stbi_load rest st' of
             Inl e \<Rightarrow> Inl e
           | Inr (bs, st'') \<Rightarrow> Inr (b # bs, st'')))"

definition handle_of :: "GLuint \<times> string \<times> string \<Rightarrow> GLuint" where
  "handle_of r = fst r"

definition tag_of :: "GLuint \<times> string \<times> string \<Rightarrow> string" where
  "tag_of r = snd (snd r)"

subsection \<open>Materials\<close>

text \<open>The loop of \<open>FindMaterial\<close>: the first entry with the tag is copied, field by
  field, into the caller's \<open>material\<close>; with no such entry \<open>material\<close> is left as it
  was.\<close>

function FindMaterial_loop ::
  "OBJECT_MATERIAL list \<Rightarrow> string \<Rightarrow> nat \<Rightarrow> OBJECT_MATERIAL \<Rightarrow> OBJECT_MATERIAL" where
  "FindMaterial_loop mats tg index material =
     (if index < length mats then
        (if OBJECT_MATERIAL.tag (mats ! index) = tg
         then material\<lparr>diffuseColor := diffuseColor (mats ! index),
                        specularColor := specularColor (mats ! index),
                        shininess := shininess (mats ! index)\<rparr>
         else FindMaterial_loop mats tg (index + 1) material)
      else material)"
  by pat_completeness auto
termination
  by (relation "measure (\<lambda>(mats, tg, index, material). length mats - index)") auto

declare FindMaterial_loop.simps [simp del]

definition FindMaterial ::
  "SceneManager \<Rightarrow> string \<Rightarrow> OBJECT_MATERIAL \<Rightarrow> bool \<times> OBJECT_MATERIAL" where
  "FindMaterial s tg material =
     (if length (m_objectMaterials s) = 0 then (False, material)
      else (True, FindMaterial_loop (m_objectMaterials s) tg 0 material))"

text \<open>
  \<open>SetShaderMaterial(materialTag)\<close>. The local \<open>OBJECT_MATERIAL material\<close> is declared
  without an initializer; \<open>uninit\<close> is what it holds before \<open>FindMaterial\<close> is called.
\<close>

definition SetShaderMaterial ::
  "OBJECT_MATERIAL \<Rightarrow> string \<Rightarrow> SceneManager \<Rightarrow> World \<Rightarrow> error + World" where
  "SetShaderMaterial uninit materialTag s w =
     (if length (m_objectMaterials s) > 0 then
        (case FindMaterial s materialTag uninit of
           (bReturn, material) \<Rightarrow>
             if bReturn = True then
               seq [setVec3Value (m_pShaderManager s) ''material.diffuseColor'' (diffuseColor material),
                    setVec3Value (m_pShaderManager s) ''material.specularColor'' (specularColor material),
                    setFloatValue (m_pShaderManager s) ''material.shininess'' (shininess material)] w
             else Inr w)
      else Inr w)"

text \<open>The three material uniforms of the shader at \<open>p\<close>.\<close>

definition material_uniforms :: "nat \<Rightarrow> World \<Rightarrow> uvalue option \<times> uvalue option \<times> uvalue option" where
  "material_uniforms p w =
     (uniforms w p ''material.diffuseColor'',
      uniforms w p ''material.specularColor'',
      uniforms w p ''material.shininess'')"

subsection \<open>Transform, colour, texture and UV scale\<close>

definition SetTransformations ::
  "vec3 \<Rightarrow> real \<Rightarrow> real \<Rightarrow> real \<Rightarrow> vec3 \<Rightarrow> SceneManager \<Rightarrow> World \<Rightarrow> error + World" where
  "SetTransformations scaleXYZ XrotationDegrees YrotationDegrees ZrotationDegrees positionXYZ s w =
     (let scale = glm_scale scaleXYZ;
          rotationX = glm_rotate (glm_radians XrotationDegrees) (Vec3 1.0 0.0 0.0);
          rotationY = glm_rotate (glm_radians YrotationDegrees) (Vec3 0.0 1.0 0.0);
          rotationZ = glm_rotate (glm_radians ZrotationDegrees) (Vec3 0.0 0.0 1.0);
          translation = glm_translate positionXYZ;
          modelView =
            mat4_mul_nan
              (mat4_mul_nan (mat4_mul_nan (mat4_mul_nan (Some translation) rotationZ) rotationY)
                 rotationX)
              (Some scale)
      in
        case m_pShaderManager s of
          None \<Rightarrow> Inr w
        | Some p \<Rightarrow> setMat4Value (m_pShaderManager s) ''model'' modelView w)"

definition SetShaderColor ::
  "real \<Rightarrow> real \<Rightarrow> real \<Rightarrow> real \<Rightarrow> SceneManager \<Rightarrow> World \<Rightarrow> error + World" where
  "SetShaderColor redColorValue greenColorValue blueColorValue alphaValue s w =
     (let currentColor = Vec4 redColorValue greenColorValue blueColorValue alphaValue in
      case m_pShaderManager s of
        None \<Rightarrow> Inr w
      | Some p \<Rightarrow>
          seq [setIntValue (m_pShaderManager s) ''bUseTexture'' 0,
               setVec4Value (m_pShaderManager s) ''objectColor'' currentColor] w)"

definition SetShaderTexture :: "string \<Rightarrow> SceneManager \<Rightarrow> World \<Rightarrow> error + World" where
  "SetShaderTexture textureTag s w =
     (case m_pShaderManager s of
        None \<Rightarrow> Inr w
      | Some p \<Rightarrow>
          let w1 = setUniform p ''bUseTexture'' (UInt 1) w in
          case FindTextureSlot s textureTag of
            Inl e \<Rightarrow> Inl e
          | Inr slot \<Rightarrow>
              let textureSlot = (if slot < 0 then 0 else slot);
                  w2 = glActiveTexture textureSlot w1
              in
                case FindTextureID s textureTag of
                  Inl e \<Rightarrow> Inl e
                | Inr textureID \<Rightarrow>
                    let w3 = (if textureID > 0 then glBindTexture (word_of_int textureID) w2 else w2)
                    in Inr (setUniform p ''objectTexture'' (USampler2D textureSlot) w3))"

definition SetTextureUVScale :: "real \<Rightarrow> real \<Rightarrow> SceneManager \<Rightarrow> World \<Rightarrow> error + World" where
  "SetTextureUVScale u v s w =
     (case m_pShaderManager s of
        None \<Rightarrow> Inr w
      | Some p \<Rightarrow> setVec2Value (m_pShaderManager s) ''UVscale'' (Vec2 u v) w)"

subsection \<open>The colour pass\<close>

text \<open>\<open>glm::vec3(x)\<close>: the vector with all three components \<open>x\<close>.\<close>

abbreviation vec3_of :: "real \<Rightarrow> vec3" where
  "vec3_of x \<equiv> Vec3 x x x"

text \<open>A call into \<open>m_basicMeshes\<close>, which the constructor allocates.\<close>

definition draw :: "call \<Rightarrow> World \<Rightarrow> error + World" where
  "draw c = ok (logged c)"

text \<open>\<open>RenderScene()\<close>; \<open>time\<close> is what \<open>glfwGetTime()\<close> returns in this frame.\<close>

definition RenderScene :: "real \<Rightarrow> SceneManager \<Rightarrow> World \<Rightarrow> error + World" where
  "RenderScene time s w =
     (let sh = m_pShaderManager s in
      seq [
        (\<lambda>w. if m_shadowDepthTexture s \<noteq> 0
              then seq [ok (glActiveTexture 7),
                        ok (glBindTexture (m_shadowDepthTexture s)),
                        setSampler2DValue sh ''spotShadowMap'' 7,
                        setMat4Value sh ''spotLightSpaceMatrix'' (m_spotLightSpaceMatrix s)] w
              else Inr w),

        SetTransformations (Vec3 20.0 1.0 10.0) 0.0 0.0 0.0 (Vec3 0.0 0.0 0.0) s,
        setIntValue sh ''bUseLighting'' 1,
        setVec3Value sh ''material.diffuseColor'' (vec3_of 1.0),
        setVec3Value sh ''material.specularColor'' (vec3_of 0.4),
        setFloatValue sh ''material.shininess'' 32.0,
        SetShaderTexture ''stone'' s,
        SetTextureUVScale 16.0 16.0 s,
        draw DrawPlaneMesh,

        SetTransformations (Vec3 2.6 0.02 2.6) 0.0 0.0 0.0 (Vec3 0.0 0.0 0.0) s,
        setIntValue sh ''bUseLighting'' 1,
        setVec3Value sh ''material.diffuseColor'' (vec3_of 0.6),
        setVec3Value sh ''material.specularColor'' (vec3_of 1.0),
        setFloatValue sh ''material.shininess'' 128.0,
        SetShaderColor 1.00 0.97 0.88 1.00 s,
        SetTextureUVScale 1.0 1.0 s,
        ok (glDepthMask True),
        draw (DrawCylinderMesh True True True),

        SetTransformations (Vec3 2.6 0.03 2.6) 0.0 0.0 0.0 (Vec3 0.0 0.03 0.0) s,
        setVec3Value sh ''material.diffuseColor'' (vec3_of 0.55),
        setVec3Value sh ''material.specularColor'' (vec3_of 1.0),
        setFloatValue sh ''material.shininess'' 128.0,
        SetShaderColor 0.98 0.95 0.86 1.00 s,
        draw (DrawCylinderMesh False True True),
        ok (glDepthMask True),

        SetTransformations (Vec3 1.5 2.0 1.5) 180.0 0.0 0.0 (Vec3 0.0 2.10 0.0) s,
        setIntValue sh ''bUseLighting'' 1,
        setVec3Value sh ''material.diffuseColor'' (vec3_of 1.0),
        setVec3Value sh ''material.specularColor'' (vec3_of 0.25),
        setFloatValue sh ''material.shininess'' 24.0,
        SetShaderTexture ''grass'' s,
        SetTextureUVScale 2.0 1.0 s,
        draw (DrawTaperedCylinderMesh True False True),

        SetTransformations (Vec3 1.46 1.96 1.46) 180.0 0.0 0.0 (Vec3 0.0 2.11 0.0) s,
        setIntValue sh ''bUseLighting'' 1,
        setVec3Value sh ''material.diffuseColor'' (vec3_of 1.0),
        setVec3Value sh ''material.specularColor'' (vec3_of 0.25),
        setFloatValue sh ''material.shininess'' 24.0,
        SetShaderTexture ''grass'' s,
        SetTextureUVScale 1.0 1.0 s,
        draw (DrawTaperedCylinderMesh False False True),

        SetTransformations (Vec3 0.08 2.96 0.08) (- 32.25) 150.0 0.0 (Vec3 (- 0.45) 0.25 (- 0.12)) s,
        setVec3Value sh ''material.diffuseColor'' (vec3_of 1.0),
        setVec3Value sh ''material.specularColor'' (vec3_of 0.35),
        setFloatValue sh ''material.shininess'' 32.0,
        SetShaderColor 0.96 0.96 0.92 1.0 s,
        draw (DrawCylinderMesh True True True),

        SetTransformations (Vec3 1.30 0.01 1.30) 0.5 0.0 0.3 (Vec3 0.0 1.78 0.0) s,
        setIntValue sh ''bUseLighting'' 1,
        SetShaderColor 0.2 0.45 0.9 0.7 s,
        setIntValue sh ''bIsLiquidSurface'' 1,
        setFloatValue sh ''timeSeconds'' (time * 0.5),
        setVec2Value sh ''rippleParams'' (Vec2 3.0 22.0),
        setVec3Value sh ''material.diffuseColor'' (Vec3 1.0 0.95 0.8),
        setVec3Value sh ''material.specularColor'' (Vec3 1.0 1.0 1.0),
        setFloatValue sh ''material.shininess'' 96.0,
        setFloatValue sh ''rippleAmplitude'' 0.10,
        draw (DrawCylinderMesh True False False),
        ok (glDepthMask True),
        setIntValue sh ''bIsLiquidSurface'' 0,

        SetTransformations (Vec3 1.0 0.1 1.0) 0.0 0.0 0.0 (Vec3 0.0 0.06 0.0) s,
        setIntValue sh ''bUseLighting'' 1,
        SetShaderTexture ''grass'' s,
        SetTextureUVScale 1.0 1.0 s,
        draw (DrawCylinderMesh True True False),
        setIntValue sh ''bUseLighting'' 1,

        (\<lambda>w. if m_shadowDepthTexture s \<noteq> 0
              then seq [ok (glActiveTexture 7),
                        ok (glBindTexture (m_shadowDepthTexture s)),
                        setSampler2DValue sh ''spotShadowMap'' 7,
                        setMat4Value sh ''spotLightSpaceMatrix'' (m_spotLightSpaceMatrix s)] w
              else Inr w)
      ] w)"

subsection \<open>The depth pass\<close>

text \<open>The lambda \<open>setDepthModel\<close> of \<open>RenderShadowMap\<close>.\<close>

definition setDepthModel ::
  "ShaderManager_ptr \<Rightarrow> vec3 \<Rightarrow> real \<Rightarrow> real \<Rightarrow> real \<Rightarrow> vec3 \<Rightarrow> World \<Rightarrow> error + World" where
  "setDepthModel pDepthShaderManager scaleXYZ Xdeg Ydeg Zdeg posXYZ w =
     (let scale = glm_scale scaleXYZ;
          rotX = glm_rotate (glm_radians Xdeg) (Vec3 1.0 0.0 0.0);
          rotY = glm_rotate (glm_radians Ydeg) (Vec3 0.0 1.0 0.0);
          rotZ = glm_rotate (glm_radians Zdeg) (Vec3 0.0 0.0 1.0);
          trans = glm_translate posXYZ;
          model =
            mat4_mul_nan (mat4_mul_nan (mat4_mul_nan (mat4_mul_nan (Some trans) rotZ) rotY) rotX)
              (Some scale)
      in setMat4Value pDepthShaderManager ''model'' model w)"

definition RenderShadowMap ::
  "vec3 \<Rightarrow> vec3 \<Rightarrow> SceneManager \<times> World \<Rightarrow> error + SceneManager \<times> World" where
  "RenderShadowMap lightPosition lightDirection st =
     (case st of (s, w) \<Rightarrow>
      if m_shadowFBO s = 0 \<or> m_pDepthShaderManager s = None then Inr (s, w)
      else
        let nearPlane = 0.05;
            farPlane = 80.0;
            fov = 48.0;
            lightProjection =
              glm_perspective (glm_radians fov)
                (real_of_int (m_shadowMapWidth s) / real_of_int (m_shadowMapHeight s)) nearPlane farPlane;
            lightView =
              do {
                direction \<leftarrow> glm_normalize lightDirection;
                glm_lookAt lightPosition (vec3_add lightPosition direction) (Vec3 0.0 1.0 0.0)
              };
            lightSpaceMatrix = mat4_mul_nan (Some lightProjection) lightView;
            s' = s\<lparr>m_spotLightSpaceMatrix := lightSpaceMatrix\<rparr>;
            dsh = m_pDepthShaderManager s'
        in
          case viewport w of (prevViewport0, prevViewport1, prevViewport2, prevViewport3) \<Rightarrow>
          (case
             seq [
               ok (logged GL_GetViewport),
               ok (glViewport 0 0 (m_shadowMapWidth s') (m_shadowMapHeight s')),
               ok (glBindFramebuffer (m_shadowFBO s')),
               ok (logged GL_ClearDepth),
               ok glEnableDepthTest,

               use dsh,
               setMat4Value dsh ''view'' lightView,
               setMat4Value dsh ''projection'' (Some lightProjection),

               setDepthModel dsh (Vec3 20.0 1.0 10.0) 0.0 0.0 0.0 (vec3_of 0.0),
               draw DrawPlaneMesh,

               setDepthModel dsh (Vec3 2.6 0.02 2.6) 0.0 0.0 0.0 (Vec3 0.0 0.0 0.0),
               draw (DrawCylinderMesh True True True),
               setDepthModel dsh (Vec3 2.6 0.03 2.6) 0.0 0.0 0.0 (Vec3 0.0 0.03 0.0),
               draw (DrawCylinderMesh False True True),

               setDepthModel dsh (Vec3 1.5 2.0 1.5) 180.0 0.0 0.0 (Vec3 0.0 2.10 0.0),
               draw (DrawTaperedCylinderMesh True False True),

               setDepthModel dsh (Vec3 1.46 1.96 1.46) 180.0 0.0 0.0 (Vec3 0.0 2.11 0.0),
               draw (DrawTaperedCylinderMesh False False True),

               setDepthModel dsh (Vec3 1.30 0.01 1.30) 0.5 0.0 0.3 (Vec3 0.0 1.78 0.0),
               draw (DrawCylinderMesh True False False),

               setDepthModel dsh (Vec3 1.0 0.1 1.0) 0.0 0.0 0.0 (Vec3 0.0 0.06 0.0),
               draw (DrawCylinderMesh True True False),

               setDepthModel dsh (Vec3 0.08 2.96 0.08) (- 24.0) (- 18.0) 0.0 (Vec3 (- 0.45) 2.60 (- 0.12)),
               draw (DrawCylinderMesh True True True),

               ok (glBindFramebuffer 0),
               ok (glViewport prevViewport0 prevViewport1 prevViewport2 prevViewport3)
             ] w
           of Inl e \<Rightarrow> Inl e
            | Inr w' \<Rightarrow> Inr (s', w')))"

subsection \<open>What a list of calls shows\<close>

fun is_draw :: "call \<Rightarrow> bool" where
  "is_draw DrawPlaneMesh = True"
| "is_draw (DrawCylinderMesh hasTop hasBottom hasSides) = True"
| "is_draw (DrawTaperedCylinderMesh hasTop hasBottom hasSides) = True"
| "is_draw c = False"

text \<open>Each mesh draw of a list of calls, with the matrix that the uniform \<open>model\<close>
  was last set to before it: \<open>None\<close> when it was not set, or set to a value with a NaN.\<close>

fun model_draws :: "mat4 option \<Rightarrow> call list \<Rightarrow> (mat4 option \<times> call) list" where
  "model_draws m [] = []"
| "model_draws m (Shader_set p name (UMat4 v) # cs) =
     (if name = ''model'' then model_draws (Some v) cs else model_draws m cs)"
| "model_draws m (Shader_set p name UNaN # cs) =
     (if name = ''model'' then model_draws None cs else model_draws m cs)"
| "model_draws m (c # cs) = (if is_draw c then (m, c) # model_draws m cs else model_draws m cs)"

text \<open>The calls that bind the shadow depth texture \<open>tex\<close> or upload the two shadow
  uniforms of the colour pass.\<close>

fun is_shadow_binding :: "GLuint \<Rightarrow> call \<Rightarrow> bool" where
  "is_shadow_binding tex (GL_BindTexture t) = (t = tex)"
| "is_shadow_binding tex (Shader_set p name v) =
     (name = ''spotShadowMap'' \<or> name = ''spotLightSpaceMatrix'')"
| "is_shadow_binding tex c = False"

fun is_framebuffer_call :: "call \<Rightarrow> bool" where
  "is_framebuffer_call (GL_BindFramebuffer fbo) = True"
| "is_framebuffer_call c = False"

fun is_viewport_call :: "call \<Rightarrow> bool" where
  "is_viewport_call GL_GetViewport = True"
| "is_viewport_call (GL_Viewport x y width height) = True"
| "is_viewport_call c = False"

text \<open>The translation column of a matrix and the entry of its row 1, column 1.\<close>

fun translation_of :: "mat4 \<Rightarrow> vec3" where
  "translation_of (Mat4 c0 c1 c2 (Vec4 x y z w)) = Vec3 x y z"

fun entry11 :: "mat4 \<Rightarrow> real" where
  "entry11 (Mat4 c0 (Vec4 x y z w) c2 c3) = y"

subsection \<open>A concrete start\<close>

text \<open>The context right after the 1000 by 800 window is created: nothing bound, no
  uniform set, no call made.\<close>

definition World_initial :: World where
  "World_initial =
     \<lparr>viewport = (0, 0, 1000, 800),
      framebuffer = 0,
      activeTexture = 0,
      texture2D = (\<lambda>unit. 0),
      depthTest = False,
      depthMask = True,
      uniforms = (\<lambda>p. Map.empty),
      calls = []\<rparr>"

text \<open>The decoder of a file system that holds just the two textures of \<open>PrepareScene\<close>,
  as 3-channel and 4-channel images, and one grey-scale image.\<close>

definition stbi_load_example :: "string \<Rightarrow> (int \<times> int \<times> int) option" where
  "stbi_load_example filename =
     (if filename = ''textures/stone.png'' then Some (512, 512, 3)
      else if filename = ''textures/grass.png'' then Some (256, 256, 4)
      else if filename = ''textures/grey.png'' then Some (64, 64, 1)
      else None)"

text \<open>A materials list with one entry, and the context after the three default
  material uniforms of \<open>PrepareScene\<close> have been written to the shader at address 1.\<close>

definition glass_material :: OBJECT_MATERIAL where
  "glass_material =
     \<lparr>diffuseColor = Vec3 0.2 0.2 0.2, specularColor = Vec3 1.0 1.0 1.0, shininess = 95.0,
      tag = ''glass''\<rparr>"

definition World_ceramic :: World where
  "World_ceramic =
     setUniform 1 ''material.shininess'' (UFloat 32.0)
       (setUniform 1 ''material.specularColor'' (UVec3 (Vec3 0.5 0.5 0.5))
         (setUniform 1 ''material.diffuseColor'' (UVec3 (Vec3 1.0 1.0 1.0)) World_initial))"

text \<open>A local \<open>OBJECT_MATERIAL\<close> whose memory happens to hold zeros.\<close>

definition zero_material :: OBJECT_MATERIAL where
  "zero_material =
     \<lparr>diffuseColor = Vec3 0 0 0, specularColor = Vec3 0 0 0, shininess = 0, tag = []\<rparr>"

subsection \<open>The transform of the spec\<close>

text \<open>
  The combined matrix as the spec words it: scale, then rotation about X, about Y and
  about Z by angles given in degrees, then translation, \<open>T * Rz * Ry * Rx * S\<close>.
\<close>

definition spec_transform :: "vec3 \<Rightarrow> real \<Rightarrow> real \<Rightarrow> real \<Rightarrow> vec3 \<Rightarrow> mat4" where
  "spec_transform scale xdeg ydeg zdeg translation =
     mat4_mul
       (mat4_mul
         (mat4_mul
           (mat4_mul (glm_translate translation)
              (rotate_normalized (glm_radians zdeg) (Vec3 0 0 1)))
           (rotate_normalized (glm_radians ydeg) (Vec3 0 1 0)))
         (rotate_normalized (glm_radians xdeg) (Vec3 1 0 0)))
       (glm_scale scale)"

subsection \<open>The view of the light\<close>


text \<open>A scene manager as \<open>PrepareScene\<close> leaves it when the shadow framebuffer, its
  depth texture and the depth-only shader program were created: handles 1 and 2, the
  depth shader at address 2.\<close>

definition SceneManager_prepared :: SceneManager where
  "SceneManager_prepared =
     (SceneManager_ctor (Some 1) (\<lambda>i. 0))
       \<lparr>m_shadowFBO := 1, m_shadowDepthTexture := 2, m_pDepthShaderManager := Some 2\<rparr>"

declare glm_scale.simps [simp del] glm_translate.simps [simp del] mat4_mul.simps [simp del]

section \<open>The ripple amplitude stays in its range\<close>

lemma clamp_in_ripple_range: "in_ripple_range (glm_clamp x 0.0 0.2)"
  by (simp add: in_ripple_range_def glm_clamp_def min_def max_def)

lemma ripple_inv_ctor: "ripple_inv (CreateDisplayWindow created (ViewManager_ctor sh))"
  by (simp add: ripple_inv_def CreateDisplayWindow_def ViewManager_ctor_def in_ripple_range_def)

lemma ripple_inv_projection: "ripple_inv vm \<Longrightarrow> ripple_inv (ProcessProjectionKeys keys vm)"
  by (simp add: ripple_inv_def ProcessProjectionKeys_def Let_def)

lemma ripple_inv_controls:
  assumes "ripple_inv vm"
  shows "ripple_inv (ProcessRippleControls fl keys vm)"
proof -
  from assms have lo: "m_rippleMin vm = 0.0" and hi: "m_rippleMax vm = 0.2"
    and st: "m_rippleStep vm = 0.01" and a: "in_ripple_range (m_rippleAmplitude vm)"
    unfolding ripple_inv_def by blast+
  show ?thesis
    unfolding ripple_inv_def ProcessRippleControls_def Let_def
    using a clamp_in_ripple_range
    by (simp add: lo hi st del: divide_eq_eq_numeral1 eq_divide_eq_numeral1)
qed

lemma ripple_inv_keyboard: "ripple_inv vm \<Longrightarrow> ripple_inv (ProcessKeyboardEvents fl keys vm)"
  by (simp add: ProcessKeyboardEvents_def ripple_inv_projection ripple_inv_controls)

lemma ripple_pushes_append: "ripple_pushes p (xs @ ys) = ripple_pushes p xs @ ripple_pushes p ys"
  by (induction p xs rule: ripple_pushes.induct) simp_all

lemma ripple_pushes_uniform_vec3:
  "ripple_pushes p (Shader_set q name (uniform_vec3 v) # cs) = ripple_pushes p cs"
  by (cases v) simp_all

lemma PrepareSceneView_fst:
  "fst (PrepareSceneView fl inp (vm, w)) = ProcessKeyboardEvents fl (pressed inp) vm"
  by (simp add: PrepareSceneView_def Let_def)

text \<open>The one value a frame writes to \<open>rippleAmplitude\<close> is the amplitude the
  keyboard handling of that frame has left.\<close>

lemma PrepareSceneView_calls:
  "\<exists>new. calls (snd (PrepareSceneView fl inp (vm, w))) = calls w @ new \<and>
     set (ripple_pushes p new) \<subseteq> {m_rippleAmplitude (ProcessKeyboardEvents fl (pressed inp) vm)}"
  by (cases "ViewManager.m_pShaderManager (ProcessKeyboardEvents fl (pressed inp) vm)")
     (simp_all add: PrepareSceneView_def Let_def setUniform_def logged_def
        ripple_pushes_uniform_vec3)

lemma frames_inv:
  "ripple_inv vm \<Longrightarrow>
   ripple_inv (fst (frames fl inps (vm, w))) \<and>
   (\<exists>new. calls (snd (frames fl inps (vm, w))) = calls w @ new \<and>
      list_all in_ripple_range (ripple_pushes p new))"
proof (induction inps arbitrary: vm w)
  case Nil
  then show ?case by simp
next
  case (Cons inp inps)
  obtain vm1 w1 where st1: "PrepareSceneView fl inp (vm, w) = (vm1, w1)"
    by (cases "PrepareSceneView fl inp (vm, w)")
  have vm1: "vm1 = ProcessKeyboardEvents fl (pressed inp) vm"
    using PrepareSceneView_fst [of fl inp vm w] st1 by simp
  have inv1: "ripple_inv vm1"
    using Cons.prems vm1 by (simp add: ripple_inv_keyboard)
  obtain new1 where new1: "calls w1 = calls w @ new1"
    "set (ripple_pushes p new1) \<subseteq> {m_rippleAmplitude vm1}"
    using PrepareSceneView_calls [of fl inp vm w p] st1 vm1 by auto
  have r1: "list_all in_ripple_range (ripple_pushes p new1)"
    using new1(2) inv1 by (auto simp: list_all_iff ripple_inv_def)
  from Cons.IH [OF inv1, of w1] obtain new2 where
    i2: "ripple_inv (fst (frames fl inps (vm1, w1)))" and
    new2: "calls (snd (frames fl inps (vm1, w1))) = calls w1 @ new2"
      "list_all in_ripple_range (ripple_pushes p new2)"
    by blast
  show ?case
    using i2 new1(1) new2 r1 st1 by (simp add: ripple_pushes_append)
qed

text \<open>
  C10. The constructor sets the ripple amplitude to 0.10 and the step to 0.01. After
  any number of frames, whatever keys are pressed in them, whether or not the window
  was created, and however the float additions round, the amplitude lies in [0.0, 0.2];
  one more \<open>ProcessRippleControls\<close> leaves it there; and every value that
  \<open>PrepareSceneView\<close> has written to the uniform \<open>rippleAmplitude\<close> lies in [0.0, 0.2].
\<close>

theorem C10_ripple_amplitude_in_range:
  "(let vm0 = CreateDisplayWindow created (ViewManager_ctor sh);
        st = frames fl inps (vm0, w)
    in m_rippleAmplitude (ViewManager_ctor sh) = 0.10 \<and>
       m_rippleStep (ViewManager_ctor sh) = 0.01 \<and>
       in_ripple_range (m_rippleAmplitude (fst st)) \<and>
       in_ripple_range (m_rippleAmplitude (ProcessRippleControls fl keys (fst st))) \<and>
       list_all in_ripple_range (ripple_pushes p (emitted w (snd st))))"
proof -
  let ?vm0 = "CreateDisplayWindow created (ViewManager_ctor sh)"
  let ?st = "frames fl inps (?vm0, w)"
  from frames_inv [OF ripple_inv_ctor, of fl inps created sh w p] obtain new where
    inv: "ripple_inv (fst ?st)" and
    new: "calls (snd ?st) = calls w @ new" "list_all in_ripple_range (ripple_pushes p new)"
    by blast
  have "emitted w (snd ?st) = new"
    using new(1) by (simp add: emitted_def)
  moreover have "in_ripple_range (m_rippleAmplitude (ProcessRippleControls fl keys (fst ?st)))"
    using ripple_inv_controls [OF inv] by (simp add: ripple_inv_def)
  moreover have "m_rippleAmplitude (ViewManager_ctor sh) = 0.10"
    "m_rippleStep (ViewManager_ctor sh) = 0.01"
    by (simp_all add: ViewManager_ctor_def)
  ultimately show ?thesis
    using inv new(2) by (simp add: Let_def ripple_inv_def)
qed

section \<open>The texture registry\<close>

lemma TEXTURE_INFO_overwrite:
  "(r :: TEXTURE_INFO)\<lparr>ID := a, TEXTURE_INFO.tag := b\<rparr> = \<lparr>ID = a, tag = b\<rparr>"
  by (cases r) simp

text \<open>
  C6. When the image decodes and its channel count is neither 3 nor 4,
  \<open>CreateGLTexture\<close> returns false and the scene manager it returns is the one it was
  given: \<open>m_loadedTextures\<close> and every entry of \<open>m_textureIDs\<close> are as before. (The
  graphics context is not: a texture name has been generated and is left bound.)
\<close>

theorem C6_unsupported_channels_leave_registry:
  assumes "stbi_load filename = Some (width, height, colorChannels)"
    and "colorChannels \<noteq> 3" and "colorChannels \<noteq> 4"
  shows "\<exists>w'. CreateGLTexture stbi_load textureID filename tg (s, w) = Inr (False, s, w')"
  using assms by (simp add: CreateGLTexture_def Let_def)

theorem C6_unsupported_channels_witness:
  "\<exists>w'. CreateGLTexture stbi_load_example 5 ''textures/grey.png'' ''grey''
          (SceneManager_ctor (Some 1) (\<lambda>i. 0), World_initial) =
        Inr (False, SceneManager_ctor (Some 1) (\<lambda>i. 0), w')"
  using C6_unsupported_channels_leave_registry
    [where stbi_load = stbi_load_example and filename = "''textures/grey.png''"
       and width = 64 and height = 64 and colorChannels = 1]
  by (simp add: stbi_load_example_def)

text \<open>
  C9. For an image that decodes with 3 or 4 channels: with fewer than 16 textures
  registered, the index \<open>m_loadedTextures\<close> lies inside the 16-entry array and the call
  returns true with the entry written there and the count incremented; with 16 or more
  registered, nothing in the function stops the write, and the call is the access
  outside the array, not a return of false.
\<close>

theorem C9_register_write_within_bounds:
  assumes "stbi_load filename = Some (width, height, colorChannels)"
    and "colorChannels = 3 \<or> colorChannels = 4"
  shows "(0 \<le> m_loadedTextures s \<and> m_loadedTextures s < 16 \<longrightarrow>
            in_bounds (m_loadedTextures s) \<and>
            (\<exists>w'. CreateGLTexture stbi_load textureID filename tg (s, w) =
               Inr (True,
                    s\<lparr>m_textureIDs := (m_textureIDs s)
                          (nat (m_loadedTextures s) := \<lparr>ID = textureID, tag = tg\<rparr>),
                      m_loadedTextures := m_loadedTextures s + 1\<rparr>,
                    w'))) \<and>
         (16 \<le> m_loadedTextures s \<longrightarrow>
            CreateGLTexture stbi_load textureID filename tg (s, w) = Inl OutOfBounds)"
  using assms
  by (auto simp add: CreateGLTexture_def Let_def TEXTURE_INFO_overwrite in_bounds_def
      texture_capacity_def)

theorem C9_register_write_witness:
  "in_bounds 0 \<and>
   (\<exists>w'. CreateGLTexture stbi_load_example 1 ''textures/stone.png'' ''stone''
           (SceneManager_ctor (Some 1) (\<lambda>i. 0), World_initial) =
      Inr (True,
           (SceneManager_ctor (Some 1) (\<lambda>i. 0))
             \<lparr>m_textureIDs := (m_textureIDs (SceneManager_ctor (Some 1) (\<lambda>i. 0)))
                 (0 := \<lparr>ID = 1, tag = ''stone''\<rparr>),
              m_loadedTextures := 1\<rparr>,
           w')) \<and>
   CreateGLTexture stbi_load_example 1 ''textures/stone.png'' ''stone''
     ((SceneManager_ctor (Some 1) (\<lambda>i. 0))\<lparr>m_loadedTextures := 16\<rparr>, World_initial) =
   Inl OutOfBounds"
proof -
  have dec: "stbi_load_example ''textures/stone.png'' = Some (512, 512, 3)"
    by (simp add: stbi_load_example_def)
  have three: "(3::int) = 3 \<or> (3::int) = 4"
    by simp
  have n0: "m_loadedTextures (SceneManager_ctor ptr g) = 0" for ptr g
    by (simp add: SceneManager_ctor_def)
  note inst = C9_register_write_within_bounds
    [where stbi_load = stbi_load_example and filename = "''textures/stone.png''"
       and textureID = 1 and tg = "''stone''" and w = World_initial, OF dec three]
  show ?thesis
    using inst [of "SceneManager_ctor (Some 1) (\<lambda>i. 0)"]
      inst [of "(SceneManager_ctor (Some 1) (\<lambda>i. 0))\<lparr>m_loadedTextures := 16\<rparr>"]
    by (simp add: n0)
qed

text \<open>What a call that returns true has done to the registry.\<close>

lemma CreateGLTexture_True:
  assumes "CreateGLTexture stbi_load textureID filename tg (s, w) = Inr (True, s', w')"
  shows "in_bounds (m_loadedTextures s) \<and>
         s' = s\<lparr>m_textureIDs := (m_textureIDs s)
                   (nat (m_loadedTextures s) := \<lparr>ID = textureID, tag = tg\<rparr>),
                 m_loadedTextures := m_loadedTextures s + 1\<rparr>"
  using assms
  by (auto simp add: CreateGLTexture_def Let_def TEXTURE_INFO_overwrite
      split: option.splits if_splits prod.splits)

lemma CreateGLTextures_all_True:
  assumes "CreateGLTextures stbi_load regs (s0, w0) = Inr (bs, s, w)"
    and "list_all (\<lambda>b. b) bs"
    and "0 \<le> m_loadedTextures s0"
    and "m_loadedTextures s0 \<le> texture_capacity"
  shows "m_loadedTextures s = m_loadedTextures s0 + int (length regs) \<and>
         m_loadedTextures s \<le> texture_capacity \<and>
         m_pShaderManager s = m_pShaderManager s0 \<and>
         (\<forall>k < nat (m_loadedTextures s0). m_textureIDs s k = m_textureIDs s0 k) \<and>
         (\<forall>k < length regs.
            m_textureIDs s (nat (m_loadedTextures s0) + k) =
              \<lparr>ID = handle_of (regs ! k), tag = tag_of (regs ! k)\<rparr>)"
  using assms
proof (induction regs arbitrary: s0 w0 bs)
  case Nil
  then show ?case by simp
next
  case (Cons r regs)
  obtain textureID filename tg where r: "r = (textureID, filename, tg)"
    by (cases r)
  from Cons.prems(1) r obtain b s1 w1 bs1 where
    one: "CreateGLTexture stbi_load textureID filename tg (s0, w0) = Inr (b, s1, w1)" and
    rest: "CreateGLTextures stbi_load regs (s1, w1) = Inr (bs1, s, w)" and
    bs: "bs = b # bs1"
    by (auto split: sum.splits prod.splits)
  from bs Cons.prems(2) have b: "b" and bs1: "list_all (\<lambda>b. b) bs1"
    by simp_all
  from CreateGLTexture_True one b have
    inb: "in_bounds (m_loadedTextures s0)" and
    s1: "s1 = s0\<lparr>m_textureIDs := (m_textureIDs s0)
                   (nat (m_loadedTextures s0) := \<lparr>ID = textureID, tag = tg\<rparr>),
                 m_loadedTextures := m_loadedTextures s0 + 1\<rparr>"
    by auto
  have n1: "0 \<le> m_loadedTextures s1" "m_loadedTextures s1 = m_loadedTextures s0 + 1"
    "m_loadedTextures s1 \<le> texture_capacity"
    using s1 Cons.prems(3) inb by (simp_all add: in_bounds_def)
  note IH = Cons.IH [OF rest bs1 n1(1) n1(3)]
  have len: "m_loadedTextures s = m_loadedTextures s0 + int (length (r # regs))"
    using IH n1 by simp
  have cap: "m_loadedTextures s \<le> texture_capacity"
    using IH by simp
  have sh: "m_pShaderManager s = m_pShaderManager s0"
    using IH s1 by simp
  have nat1: "nat (m_loadedTextures s1) = Suc (nat (m_loadedTextures s0))"
    using n1(2) Cons.prems(3) by simp
  have old: "m_textureIDs s k = m_textureIDs s1 k" if "k < Suc (nat (m_loadedTextures s0))" for k
    using IH that nat1 by simp
  have before: "m_textureIDs s k = m_textureIDs s0 k" if "k < nat (m_loadedTextures s0)" for k
    using old [of k] that s1 by simp
  have ents: "m_textureIDs s (nat (m_loadedTextures s0) + k) =
      \<lparr>ID = handle_of ((r # regs) ! k), tag = tag_of ((r # regs) ! k)\<rparr>"
    if k: "k < length (r # regs)" for k
  proof (cases k)
    case 0
    then show ?thesis
      using old [of "nat (m_loadedTextures s0)"] s1 r by (simp add: handle_of_def tag_of_def)
  next
    case (Suc j)
    have "m_textureIDs s (nat (m_loadedTextures s1) + j) =
        \<lparr>ID = handle_of (regs ! j), tag = tag_of (regs ! j)\<rparr>"
      using IH Suc k by simp
    then show ?thesis
      using Suc nat1 by simp
  qed
  show ?case
    using len cap sh before ents by blast
qed

text \<open>The two lookup loops find the first entry with the tag at or after \<open>index\<close>.\<close>

lemma FindTextureSlot_loop_first:
  assumes "0 \<le> index" and "index \<le> target" and "target < m_loadedTextures s"
    and "m_loadedTextures s \<le> texture_capacity"
    and "TEXTURE_INFO.tag (m_textureIDs s (nat target)) = tg"
    and "\<forall>k. index \<le> k \<and> k < target \<longrightarrow> TEXTURE_INFO.tag (m_textureIDs s (nat k)) \<noteq> tg"
  shows "FindTextureSlot_loop s tg index = Inr target"
  using assms
proof (induction s tg index rule: FindTextureSlot_loop.induct)
  case (1 s tg index)
  have inb: "in_bounds index" and lt: "index < m_loadedTextures s"
    using "1.prems" by (simp_all add: in_bounds_def)
  show ?case
  proof (cases "index = target")
    case True
    then show ?thesis
      using "1.prems" inb lt by (simp add: FindTextureSlot_loop.simps [of s tg target])
  next
    case False
    then have ne: "TEXTURE_INFO.tag (m_textureIDs s (nat index)) \<noteq> tg"
      using "1.prems" by simp
    have next_step: "FindTextureSlot_loop s tg (index + 1) = Inr target"
      using "1.IH" [OF lt inb ne] "1.prems" False by simp
    then show ?thesis
      using inb lt ne by (simp add: FindTextureSlot_loop.simps [of s tg index])
  qed
qed

lemma FindTextureID_loop_first:
  assumes "0 \<le> index" and "index \<le> target" and "target < m_loadedTextures s"
    and "m_loadedTextures s \<le> texture_capacity"
    and "TEXTURE_INFO.tag (m_textureIDs s (nat target)) = tg"
    and "\<forall>k. index \<le> k \<and> k < target \<longrightarrow> TEXTURE_INFO.tag (m_textureIDs s (nat k)) \<noteq> tg"
  shows "FindTextureID_loop s tg index = Inr (sint (ID (m_textureIDs s (nat target))))"
  using assms
proof (induction s tg index rule: FindTextureID_loop.induct)
  case (1 s tg index)
  have inb: "in_bounds index" and lt: "index < m_loadedTextures s"
    using "1.prems" by (simp_all add: in_bounds_def)
  show ?case
  proof (cases "index = target")
    case True
    then show ?thesis
      using "1.prems" inb lt by (simp add: FindTextureID_loop.simps [of s tg target])
  next
    case False
    then have ne: "TEXTURE_INFO.tag (m_textureIDs s (nat index)) \<noteq> tg"
      using "1.prems" by simp
    have next_step: "FindTextureID_loop s tg (index + 1) = Inr (sint (ID (m_textureIDs s (nat target))))"
      using "1.IH" [OF lt inb ne] "1.prems" False by simp
    then show ?thesis
      using inb lt ne by (simp add: FindTextureID_loop.simps [of s tg index])
  qed
qed

text \<open>A slot that a lookup returns holds the tag that was looked up.\<close>

lemma FindTextureSlot_loop_sound:
  assumes "FindTextureSlot_loop s tg index = Inr slot" and "0 \<le> slot"
  shows "TEXTURE_INFO.tag (m_textureIDs s (nat slot)) = tg"
  using assms
proof (induction s tg index rule: FindTextureSlot_loop.induct)
  case (1 s tg index)
  show ?case
  proof (cases "index < m_loadedTextures s \<and> in_bounds index \<and>
                TEXTURE_INFO.tag (m_textureIDs s (nat index)) \<noteq> tg")
    case True
    then have "FindTextureSlot_loop s tg (index + 1) = Inr slot"
      using "1.prems"(1) by (simp add: FindTextureSlot_loop.simps [of s tg index])
    then show ?thesis
      using "1.IH" "1.prems"(2) True by blast
  next
    case False
    then show ?thesis
      using "1.prems" by (auto simp add: FindTextureSlot_loop.simps [of s tg index] split: if_splits)
  qed
qed

lemma BindGLTextures_loop_binds:
  assumes "0 \<le> i" and "m_loadedTextures s \<le> texture_capacity"
  shows "\<exists>w'. BindGLTextures_loop s i w = Inr w' \<and>
           (\<forall>k. i \<le> k \<and> k < m_loadedTextures s \<longrightarrow> texture2D w' k = ID (m_textureIDs s (nat k))) \<and>
           (\<forall>k. k < i \<longrightarrow> texture2D w' k = texture2D w k) \<and>
           uniforms w' = uniforms w"
  using assms
proof (induction s i w rule: BindGLTextures_loop.induct)
  case (1 s i w)
  show ?case
  proof (cases "i < m_loadedTextures s")
    case False
    then show ?thesis by (auto simp add: BindGLTextures_loop.simps [of s i w])
  next
    case True
    then have inb: "in_bounds i"
      using "1.prems" by (simp add: in_bounds_def)
    let ?w1 = "glBindTexture (ID (m_textureIDs s (nat i))) (glActiveTexture i w)"
    have w1: "texture2D ?w1 = (texture2D w)(i := ID (m_textureIDs s (nat i)))"
      "uniforms ?w1 = uniforms w"
      by (simp_all add: glBindTexture_def glActiveTexture_def logged_def)
    from "1.IH" [OF True inb] "1.prems" obtain w' where
      run: "BindGLTextures_loop s (i + 1) ?w1 = Inr w'" and
      later: "\<forall>k. i + 1 \<le> k \<and> k < m_loadedTextures s \<longrightarrow> texture2D w' k = ID (m_textureIDs s (nat k))" and
      earlier: "\<forall>k. k < i + 1 \<longrightarrow> texture2D w' k = texture2D ?w1 k" and
      un: "uniforms w' = uniforms ?w1"
      by auto
    have here: "texture2D w' i = ID (m_textureIDs s (nat i))"
      using earlier w1 by simp
    have a: "texture2D w' k = ID (m_textureIDs s (nat k))" if "i \<le> k" "k < m_loadedTextures s" for k
      using that later here by (cases "k = i") auto
    have b: "texture2D w' k = texture2D w k" if "k < i" for k
      using that earlier w1 by simp
    have "BindGLTextures_loop s i w = Inr w'"
      using run True inb by (simp add: BindGLTextures_loop.simps [of s i w])
    then show ?thesis
      using a b un w1 by auto
  qed
qed

text \<open>
  C7. In a run of \<open>CreateGLTexture\<close> calls from an empty registry that all return
  true, let calls \<open>i\<close> and \<open>j\<close>, \<open>i\<close> before \<open>j\<close>, register the same tag, \<open>i\<close> being the
  first call with that tag. Then \<open>FindTextureSlot\<close> returns \<open>i\<close> and \<open>FindTextureID\<close>
  returns the handle of call \<open>i\<close> (as the \<open>int\<close> the function returns); the entry of
  call \<open>j\<close> is still in the registry, at index \<open>j\<close> below the count, and no tag makes
  \<open>FindTextureSlot\<close> return \<open>j\<close>.
\<close>

theorem C7_duplicate_tag_first_registered_wins:
  assumes "CreateGLTextures stbi_load regs (s0, w0) = Inr (bs, s, w)"
    and "list_all (\<lambda>b. b) bs"
    and "m_loadedTextures s0 = 0"
    and "i < j" and "j < length regs"
    and "tag_of (regs ! i) = tg" and "tag_of (regs ! j) = tg"
    and "\<forall>k<i. tag_of (regs ! k) \<noteq> tg"
  shows "FindTextureSlot s tg = Inr (int i) \<and>
         FindTextureID s tg = Inr (sint (handle_of (regs ! i))) \<and>
         int j < m_loadedTextures s \<and>
         m_textureIDs s j = \<lparr>ID = handle_of (regs ! j), tag = tg\<rparr> \<and>
         (\<forall>tg'. FindTextureSlot s tg' \<noteq> Inr (int j))"
proof -
  have reg: "m_loadedTextures s = int (length regs)" "m_loadedTextures s \<le> texture_capacity"
    "\<forall>k < length regs. m_textureIDs s k = \<lparr>ID = handle_of (regs ! k), tag = tag_of (regs ! k)\<rparr>"
    using CreateGLTextures_all_True [OF assms(1) assms(2)] assms(3)
    by (simp_all add: texture_capacity_def)
  have ti: "TEXTURE_INFO.tag (m_textureIDs s (nat (int i))) = tg"
    using reg(3) assms(4,5,6) by simp
  have before: "\<forall>k. 0 \<le> k \<and> k < int i \<longrightarrow> TEXTURE_INFO.tag (m_textureIDs s (nat k)) \<noteq> tg"
  proof (intro allI impI)
    fix k :: int
    assume k: "0 \<le> k \<and> k < int i"
    then have "nat k < i" by (auto simp: nat_less_iff)
    then show "TEXTURE_INFO.tag (m_textureIDs s (nat k)) \<noteq> tg"
      using reg(3) assms(4,5,8) by simp
  qed
  have ilt: "int i < m_loadedTextures s"
    using reg(1) assms(4,5) by simp
  have slot: "FindTextureSlot s tg = Inr (int i)"
    unfolding FindTextureSlot_def
    using FindTextureSlot_loop_first [OF _ _ ilt reg(2) ti before] by simp
  have "FindTextureID s tg = Inr (sint (ID (m_textureIDs s (nat (int i)))))"
    unfolding FindTextureID_def
    using FindTextureID_loop_first [OF _ _ ilt reg(2) ti before] by simp
  then have ident: "FindTextureID s tg = Inr (sint (handle_of (regs ! i)))"
    using reg(3) assms(4,5) by simp
  have entry: "m_textureIDs s j = \<lparr>ID = handle_of (regs ! j), tag = tg\<rparr>"
    using reg(3) assms(5,7) by simp
  have unreachable: "FindTextureSlot s tg' \<noteq> Inr (int j)" for tg'
  proof
    assume found: "FindTextureSlot s tg' = Inr (int j)"
    then have "TEXTURE_INFO.tag (m_textureIDs s (nat (int j))) = tg'"
      using FindTextureSlot_loop_sound [of s tg' 0 "int j"] by (simp add: FindTextureSlot_def)
    then have "tg' = tg"
      using entry by simp
    then show False
      using found slot assms(4) by simp
  qed
  show ?thesis
    using slot ident entry unreachable reg(1) assms(5) by simp
qed

theorem C7_duplicate_tag_witness:
  "\<exists>bs s w.
     CreateGLTextures stbi_load_example
       [(1, ''textures/stone.png'', ''stone''), (2, ''textures/grass.png'', ''stone'')]
       (SceneManager_ctor (Some 1) (\<lambda>i. 0), World_initial) = Inr (bs, s, w) \<and>
     list_all (\<lambda>b. b) bs \<and>
     FindTextureSlot s ''stone'' = Inr 0 \<and>
     FindTextureID s ''stone'' = Inr 1 \<and>
     m_loadedTextures s = 2 \<and>
     m_textureIDs s 1 = \<lparr>ID = 2, tag = ''stone''\<rparr> \<and>
     (\<forall>tg'. FindTextureSlot s tg' \<noteq> Inr 1)"
proof -
  let ?regs = "[(1, ''textures/stone.png'', ''stone''), (2, ''textures/grass.png'', ''stone'')]
    :: (GLuint \<times> string \<times> string) list"
  let ?s0 = "SceneManager_ctor (Some 1) (\<lambda>i. 0)"
  obtain s w where run:
    "CreateGLTextures stbi_load_example ?regs (?s0, World_initial) = Inr ([True, True], s, w)"
    by (simp add: CreateGLTexture_def stbi_load_example_def SceneManager_ctor_def Let_def
        in_bounds_def texture_capacity_def)
  have n: "m_loadedTextures s = 2"
    using run
    by (simp add: CreateGLTexture_def stbi_load_example_def SceneManager_ctor_def Let_def
        in_bounds_def texture_capacity_def) auto
  have "FindTextureSlot s ''stone'' = Inr (int 0) \<and>
         FindTextureID s ''stone'' = Inr (sint (handle_of (?regs ! 0))) \<and>
         int 1 < m_loadedTextures s \<and>
         m_textureIDs s 1 = \<lparr>ID = handle_of (?regs ! 1), tag = ''stone''\<rparr> \<and>
         (\<forall>tg'. FindTextureSlot s tg' \<noteq> Inr (int 1))"
    by (rule C7_duplicate_tag_first_registered_wins [OF run])
       (simp_all add: SceneManager_ctor_def tag_of_def)
  then show ?thesis
    using run n by (simp add: handle_of_def)
qed

text \<open>
  C8. After a run of \<open>CreateGLTexture\<close> calls from an empty registry that all return
  true and register pairwise distinct tags, \<open>BindGLTextures\<close> returns, and then for
  every \<open>i\<close>: the handle of call \<open>i\<close> is the 2D texture bound to unit \<open>i\<close>,
  \<open>FindTextureSlot\<close> of its tag is \<open>i\<close>, and \<open>FindTextureID\<close> of its tag is its handle
  (as the \<open>int\<close> the function returns); the sampler \<open>objectTexture\<close> of the scene
  manager's shader manager is set to unit 0.
\<close>

theorem C8_registration_order_binding:
  assumes "CreateGLTextures stbi_load regs (s0, w0) = Inr (bs, s, w)"
    and "list_all (\<lambda>b. b) bs"
    and "m_loadedTextures s0 = 0"
    and "distinct (map tag_of regs)"
  shows "\<exists>w'. BindGLTextures s w = Inr w' \<and>
           (\<forall>i < length regs.
              texture2D w' (int i) = handle_of (regs ! i) \<and>
              FindTextureSlot s (tag_of (regs ! i)) = Inr (int i) \<and>
              FindTextureID s (tag_of (regs ! i)) = Inr (sint (handle_of (regs ! i)))) \<and>
           (\<forall>p. m_pShaderManager s0 = Some p \<longrightarrow>
              uniforms w' p ''objectTexture'' = Some (USampler2D 0))"
proof -
  have reg: "m_loadedTextures s = int (length regs)" "m_loadedTextures s \<le> texture_capacity"
    "m_pShaderManager s = m_pShaderManager s0"
    "\<forall>k < length regs. m_textureIDs s k = \<lparr>ID = handle_of (regs ! k), tag = tag_of (regs ! k)\<rparr>"
    using CreateGLTextures_all_True [OF assms(1) assms(2)] assms(3)
    by (simp_all add: texture_capacity_def)
  from BindGLTextures_loop_binds [of 0 s w] reg(2) obtain w1 where
    loop: "BindGLTextures_loop s 0 w = Inr w1" and
    bound: "\<forall>k. 0 \<le> k \<and> k < m_loadedTextures s \<longrightarrow> texture2D w1 k = ID (m_textureIDs s (nat k))"
    by auto
  let ?w' = "case m_pShaderManager s of
      None \<Rightarrow> w1
    | Some p \<Rightarrow> setUniform p ''objectTexture'' (USampler2D 0) w1"
  have bind: "BindGLTextures s w = Inr ?w'"
    using loop
    by (simp add: BindGLTextures_def setSampler2DValue_def deref_def split: option.splits)
  have tex: "texture2D ?w' = texture2D w1"
    by (simp add: setUniform_def logged_def split: option.splits)
  have sampler: "\<forall>p. m_pShaderManager s0 = Some p \<longrightarrow>
      uniforms ?w' p ''objectTexture'' = Some (USampler2D 0)"
    using reg(3) by (simp add: setUniform_def logged_def)
  have each: "texture2D ?w' (int i) = handle_of (regs ! i) \<and>
      FindTextureSlot s (tag_of (regs ! i)) = Inr (int i) \<and>
      FindTextureID s (tag_of (regs ! i)) = Inr (sint (handle_of (regs ! i)))"
    if i: "i < length regs" for i
  proof -
    have ilt: "int i < m_loadedTextures s"
      using reg(1) i by simp
    have ti: "TEXTURE_INFO.tag (m_textureIDs s (nat (int i))) = tag_of (regs ! i)"
      using reg(4) i by simp
    have before: "\<forall>k. 0 \<le> k \<and> k < int i \<longrightarrow>
        TEXTURE_INFO.tag (m_textureIDs s (nat k)) \<noteq> tag_of (regs ! i)"
    proof (intro allI impI)
      fix k :: int
      assume k: "0 \<le> k \<and> k < int i"
      then have lt: "nat k < i" by (auto simp: nat_less_iff)
      have "(map tag_of regs ! nat k = map tag_of regs ! i) = (nat k = i)"
        using assms(4) i lt by (intro nth_eq_iff_index_eq) simp_all
      then have "tag_of (regs ! nat k) \<noteq> tag_of (regs ! i)"
        using i lt by simp
      then show "TEXTURE_INFO.tag (m_textureIDs s (nat k)) \<noteq> tag_of (regs ! i)"
        using reg(4) i lt by simp
    qed
    have "texture2D ?w' (int i) = ID (m_textureIDs s (nat (int i)))"
      using bound ilt tex by simp
    moreover have "FindTextureSlot s (tag_of (regs ! i)) = Inr (int i)"
      unfolding FindTextureSlot_def
      using FindTextureSlot_loop_first [OF _ _ ilt reg(2) ti before] by simp
    moreover have "FindTextureID s (tag_of (regs ! i)) = Inr (sint (ID (m_textureIDs s (nat (int i)))))"
      unfolding FindTextureID_def
      using FindTextureID_loop_first [OF _ _ ilt reg(2) ti before] by simp
    ultimately show ?thesis
      using reg(4) i by simp
  qed
  show ?thesis
    using bind each sampler by blast
qed

theorem C8_registration_order_witness:
  "\<exists>bs s w w'.
     CreateGLTextures stbi_load_example
       [(1, ''textures/stone.png'', ''stone''), (2, ''textures/grass.png'', ''grass'')]
       (SceneManager_ctor (Some 1) (\<lambda>i. 0), World_initial) = Inr (bs, s, w) \<and>
     list_all (\<lambda>b. b) bs \<and>
     BindGLTextures s w = Inr w' \<and>
     texture2D w' 0 = 1 \<and> texture2D w' 1 = 2 \<and>
     FindTextureSlot s ''stone'' = Inr 0 \<and> FindTextureSlot s ''grass'' = Inr 1 \<and>
     FindTextureID s ''stone'' = Inr 1 \<and> FindTextureID s ''grass'' = Inr 2 \<and>
     uniforms w' 1 ''objectTexture'' = Some (USampler2D 0)"
proof -
  let ?regs = "[(1, ''textures/stone.png'', ''stone''), (2, ''textures/grass.png'', ''grass'')]
    :: (GLuint \<times> string \<times> string) list"
  let ?s0 = "SceneManager_ctor (Some 1) (\<lambda>i. 0)"
  obtain s w where run:
    "CreateGLTextures stbi_load_example ?regs (?s0, World_initial) = Inr ([True, True], s, w)"
    by (simp add: CreateGLTexture_def stbi_load_example_def SceneManager_ctor_def Let_def
        in_bounds_def texture_capacity_def)
  have "\<exists>w'. BindGLTextures s w = Inr w' \<and>
           (\<forall>i < length ?regs.
              texture2D w' (int i) = handle_of (?regs ! i) \<and>
              FindTextureSlot s (tag_of (?regs ! i)) = Inr (int i) \<and>
              FindTextureID s (tag_of (?regs ! i)) = Inr (sint (handle_of (?regs ! i)))) \<and>
           uniforms w' 1 ''objectTexture'' = Some (USampler2D 0)"
    using C8_registration_order_binding [OF run]
    by (simp add: SceneManager_ctor_def tag_of_def)
  then obtain w' where w': "BindGLTextures s w = Inr w'"
    "\<forall>i < length ?regs.
              texture2D w' (int i) = handle_of (?regs ! i) \<and>
              FindTextureSlot s (tag_of (?regs ! i)) = Inr (int i) \<and>
              FindTextureID s (tag_of (?regs ! i)) = Inr (sint (handle_of (?regs ! i)))"
    "uniforms w' 1 ''objectTexture'' = Some (USampler2D 0)"
    by blast
  from w'(2) [rule_format, of 0] have "texture2D w' (int 0) = handle_of (?regs ! 0) \<and>
              FindTextureSlot s (tag_of (?regs ! 0)) = Inr (int 0) \<and>
              FindTextureID s (tag_of (?regs ! 0)) = Inr (sint (handle_of (?regs ! 0)))"
    by simp
  moreover from w'(2) [rule_format, of 1] have "texture2D w' (int 1) = handle_of (?regs ! 1) \<and>
              FindTextureSlot s (tag_of (?regs ! 1)) = Inr (int 1) \<and>
              FindTextureID s (tag_of (?regs ! 1)) = Inr (sint (handle_of (?regs ! 1)))"
    by simp
  ultimately show ?thesis
    using run w'(1,3) by (simp add: handle_of_def tag_of_def)
qed

section \<open>Materials\<close>

lemma FindMaterial_loop_no_match:
  assumes "\<forall>k. index \<le> k \<and> k < length mats \<longrightarrow> OBJECT_MATERIAL.tag (mats ! k) \<noteq> tg"
  shows "FindMaterial_loop mats tg index material = material"
  using assms
proof (induction mats tg index material rule: FindMaterial_loop.induct)
  case (1 mats tg index material)
  show ?case
  proof (cases "index < length mats")
    case True
    then have ne: "OBJECT_MATERIAL.tag (mats ! index) \<noteq> tg"
      using "1.prems" by simp
    have "FindMaterial_loop mats tg (index + 1) material = material"
      using "1.IH" [OF True ne] "1.prems" by simp
    then show ?thesis
      using True ne by (simp add: FindMaterial_loop.simps [of mats tg index])
  next
    case False
    then show ?thesis
      by (simp add: FindMaterial_loop.simps [of mats tg index])
  qed
qed

text \<open>With an empty materials list the call does nothing.\<close>

lemma SetShaderMaterial_empty:
  "m_objectMaterials s = [] \<Longrightarrow> SetShaderMaterial uninit materialTag s w = Inr w"
  by (simp add: SetShaderMaterial_def)

text \<open>With a list that is not empty and holds no entry for the tag, \<open>FindMaterial\<close>
  still returns true, and the three uniforms receive the fields of the local.\<close>

lemma FindMaterial_unknown:
  assumes "m_objectMaterials s \<noteq> []"
    and "\<forall>m \<in> set (m_objectMaterials s). OBJECT_MATERIAL.tag m \<noteq> materialTag"
  shows "FindMaterial s materialTag uninit = (True, uninit)"
  using assms FindMaterial_loop_no_match [of 0 "m_objectMaterials s" materialTag uninit]
  by (simp add: FindMaterial_def)

lemma SetShaderMaterial_unknown:
  assumes "m_objectMaterials s \<noteq> []"
    and "\<forall>m \<in> set (m_objectMaterials s). OBJECT_MATERIAL.tag m \<noteq> materialTag"
    and "m_pShaderManager s = Some p"
  shows "\<exists>w'. SetShaderMaterial uninit materialTag s w = Inr w' \<and>
           material_uniforms p w' =
             (Some (UVec3 (diffuseColor uninit)), Some (UVec3 (specularColor uninit)),
              Some (UFloat (shininess uninit)))"
  using assms FindMaterial_unknown [OF assms(1,2), of uninit]
  by (simp add: SetShaderMaterial_def setVec3Value_def setFloatValue_def deref_def
      material_uniforms_def setUniform_def logged_def)

text \<open>
  C1, at a materials list that is not empty: \<open>FindMaterial\<close> returns true although no
  entry has the tag \<open>unknown\<close>, and \<open>SetShaderMaterial\<close> writes the fields of its
  local, here zeros, over the three material uniforms, which held the values of
  \<open>PrepareScene\<close> before the call.
\<close>

theorem C1_unknown_tag_overwrites_material_uniforms:
  "material_uniforms 1 World_ceramic =
     (Some (UVec3 (Vec3 1.0 1.0 1.0)), Some (UVec3 (Vec3 0.5 0.5 0.5)), Some (UFloat 32.0)) \<and>
   (\<exists>w'. SetShaderMaterial zero_material ''unknown''
            ((SceneManager_ctor (Some 1) (\<lambda>i. 0))\<lparr>m_objectMaterials := [glass_material]\<rparr>)
            World_ceramic = Inr w' \<and>
          material_uniforms 1 w' =
            (Some (UVec3 (Vec3 0 0 0)), Some (UVec3 (Vec3 0 0 0)), Some (UFloat 0)) \<and>
          material_uniforms 1 w' \<noteq> material_uniforms 1 World_ceramic)"
proof -
  let ?s = "(SceneManager_ctor (Some 1) (\<lambda>i. 0))\<lparr>m_objectMaterials := [glass_material]\<rparr>"
  have before: "material_uniforms 1 World_ceramic =
     (Some (UVec3 (Vec3 1.0 1.0 1.0)), Some (UVec3 (Vec3 0.5 0.5 0.5)), Some (UFloat 32.0))"
    by (simp add: material_uniforms_def World_ceramic_def setUniform_def logged_def World_initial_def)
  have "\<exists>w'. SetShaderMaterial zero_material ''unknown'' ?s World_ceramic = Inr w' \<and>
           material_uniforms 1 w' =
             (Some (UVec3 (diffuseColor zero_material)), Some (UVec3 (specularColor zero_material)),
              Some (UFloat (shininess zero_material)))"
    by (rule SetShaderMaterial_unknown)
       (simp_all add: SceneManager_ctor_def glass_material_def)
  then show ?thesis
    using before by (auto simp add: zero_material_def)
qed

section \<open>Texture lookups during a frame\<close>

lemmas world_ops = ok_def draw_def use_def deref_def logged_def setUniform_def
  setIntValue_def setFloatValue_def setVec2Value_def setVec3Value_def setVec4Value_def
  setMat4Value_def setSampler2DValue_def glActiveTexture_def glBindTexture_def glDepthMask_def
  glViewport_def glBindFramebuffer_def glEnableDepthTest_def

lemma FindTextureSlot_loop_returns:
  assumes "m_loadedTextures s \<le> texture_capacity" and "0 \<le> index"
  shows "\<exists>slot. FindTextureSlot_loop s tg index = Inr slot"
  using assms
proof (induction s tg index rule: FindTextureSlot_loop.induct)
  case (1 s tg index)
  show ?case
  proof (cases "index < m_loadedTextures s")
    case False
    then show ?thesis
      by (simp add: FindTextureSlot_loop.simps [of s tg index])
  next
    case True
    then have inb: "in_bounds index"
      using "1.prems" by (simp add: in_bounds_def)
    show ?thesis
    proof (cases "TEXTURE_INFO.tag (m_textureIDs s (nat index)) = tg")
      case True
      then show ?thesis
        using \<open>index < m_loadedTextures s\<close> inb
        by (simp add: FindTextureSlot_loop.simps [of s tg index])
    next
      case False
      from "1.IH" [OF \<open>index < m_loadedTextures s\<close> inb False] "1.prems"
      obtain slot where "FindTextureSlot_loop s tg (index + 1) = Inr slot"
        by auto
      then show ?thesis
        using \<open>index < m_loadedTextures s\<close> inb False
        by (simp add: FindTextureSlot_loop.simps [of s tg index])
    qed
  qed
qed

lemma positive_sint_nonzero: "0 < sint (h :: GLuint) \<Longrightarrow> (word_of_int (sint h) :: GLuint) \<noteq> 0"
  by auto

lemma FindTextureID_loop_returns:
  assumes "m_loadedTextures s \<le> texture_capacity" and "0 \<le> index"
  shows "\<exists>textureID. FindTextureID_loop s tg index = Inr textureID \<and>
           (0 < textureID \<longrightarrow> (word_of_int textureID :: GLuint) \<noteq> 0)"
  using assms
proof (induction s tg index rule: FindTextureID_loop.induct)
  case (1 s tg index)
  show ?case
  proof (cases "index < m_loadedTextures s")
    case False
    then show ?thesis
      by (simp add: FindTextureID_loop.simps [of s tg index])
  next
    case True
    then have inb: "in_bounds index"
      using "1.prems" by (simp add: in_bounds_def)
    show ?thesis
    proof (cases "TEXTURE_INFO.tag (m_textureIDs s (nat index)) = tg")
      case True
      then show ?thesis
        using \<open>index < m_loadedTextures s\<close> inb positive_sint_nonzero
        by (simp add: FindTextureID_loop.simps [of s tg index])
    next
      case False
      from "1.IH" [OF \<open>index < m_loadedTextures s\<close> inb False] "1.prems"
      obtain textureID where "FindTextureID_loop s tg (index + 1) = Inr textureID"
        "0 < textureID \<longrightarrow> (word_of_int textureID :: GLuint) \<noteq> 0"
        by auto
      then show ?thesis
        using \<open>index < m_loadedTextures s\<close> inb False
        by (simp add: FindTextureID_loop.simps [of s tg index])
    qed
  qed
qed

text \<open>What \<open>SetShaderTexture\<close> does when the registry is within its capacity: between
  the activation of the unit and the write of the sampler it binds the texture found, if
  any; \<open>bind\<close> is that step and \<open>bs\<close> the calls it makes, none of them a draw, an upload
  or a bind of texture 0.\<close>

lemma SetShaderTexture_returns:
  assumes "m_loadedTextures s \<le> texture_capacity" and "m_pShaderManager s = Some p"
  shows "\<exists>slot bind bs.
           (\<forall>w. SetShaderTexture textureTag s w =
              Inr (setUniform p ''objectTexture'' (USampler2D slot)
                    (bind (glActiveTexture slot (setUniform p ''bUseTexture'' (UInt 1) w))))) \<and>
           (\<forall>w. calls (bind w) = calls w @ bs) \<and>
           (\<forall>w. uniforms (bind w) = uniforms w) \<and>
           filter (is_shadow_binding 0) bs = [] \<and>
           (\<forall>m cs. model_draws m (bs @ cs) = model_draws m cs)"
proof -
  from FindTextureSlot_loop_returns [OF assms(1), of 0 textureTag]
  obtain slot where slot: "FindTextureSlot s textureTag = Inr slot"
    by (auto simp add: FindTextureSlot_def)
  from FindTextureID_loop_returns [OF assms(1), of 0 textureTag]
  obtain textureID where tid: "FindTextureID s textureTag = Inr textureID"
    "0 < textureID \<longrightarrow> (word_of_int textureID :: GLuint) \<noteq> 0"
    by (auto simp add: FindTextureID_def)
  let ?bind = "\<lambda>w. if textureID > 0 then glBindTexture (word_of_int textureID) w else w"
  let ?bs = "if textureID > 0 then [GL_BindTexture (word_of_int textureID)] else []"
  have run: "\<forall>w. SetShaderTexture textureTag s w =
              Inr (setUniform p ''objectTexture'' (USampler2D (if slot < 0 then 0 else slot))
                    (?bind (glActiveTexture (if slot < 0 then 0 else slot)
                       (setUniform p ''bUseTexture'' (UInt 1) w))))"
    by (simp add: SetShaderTexture_def assms(2) slot tid(1) Let_def)
  have log: "\<forall>w. calls (?bind w) = calls w @ ?bs"
    by (simp add: glBindTexture_def logged_def)
  have un: "\<forall>w. uniforms (?bind w) = uniforms w"
    by (simp add: glBindTexture_def logged_def)
  have none: "filter (is_shadow_binding 0) ?bs = []"
    using tid(2) by simp
  have draws: "\<forall>m cs. model_draws m (?bs @ cs) = model_draws m cs"
    by simp
  show ?thesis
    by (rule exI [of _ "if slot < 0 then 0 else slot"], rule exI [of _ ?bind], rule exI [of _ ?bs])
       (use run log un none draws in blast)
qed

section \<open>The model matrix\<close>

lemmas glm_defs = spec_transform_def glm_translate.simps glm_scale.simps rotate_normalized_def
  mat4_mul.simps mat4_identity_def glm_radians_def Let_def

text \<open>The axes that the two passes rotate about have length 1.\<close>

lemma glm_rotate_axis:
  "glm_rotate angle (Vec3 1 0 0) = Some (rotate_normalized angle (Vec3 1 0 0))"
  "glm_rotate angle (Vec3 0 1 0) = Some (rotate_normalized angle (Vec3 0 1 0))"
  "glm_rotate angle (Vec3 0 0 1) = Some (rotate_normalized angle (Vec3 0 0 1))"
  by (simp_all add: glm_rotate_def glm_normalize_def)

lemma translation_of_spec_transform:
  "translation_of (spec_transform (Vec3 sx sy sz) xdeg ydeg zdeg (Vec3 x y z)) = Vec3 x y z"
  by (simp add: glm_defs)

lemma entry11_spec_transform:
  "entry11 (spec_transform (Vec3 sx sy sz) xdeg ydeg 0 (Vec3 x y z)) = sy * cos (xdeg * (pi / 180))"
  by (simp add: glm_defs)

lemma straw_rotations_differ: "cos (- 24.0 * (pi / 180)) \<noteq> cos (- 32.25 * (pi / 180) :: real)"
proof -
  have "cos (32.25 * (pi / 180)) < cos (24.0 * (pi / 180) :: real)"
    by (rule cos_monotone_0_pi) simp_all
  then show ?thesis
    by (simp only: minus_mult_left [symmetric] cos_minus)
qed

section \<open>The two render passes\<close>

text \<open>Both passes compute the matrix of the spec from the values they are given.\<close>

lemma SetTransformations_spec:
  "m_pShaderManager s = Some p \<Longrightarrow>
   SetTransformations scaleXYZ xdeg ydeg zdeg positionXYZ s w =
     Inr (setUniform p ''model'' (UMat4 (spec_transform scaleXYZ xdeg ydeg zdeg positionXYZ)) w)"
  by (simp add: SetTransformations_def spec_transform_def Let_def setMat4Value_def deref_def
        glm_rotate_axis)

lemma setDepthModel_spec:
  "setDepthModel (Some d) scaleXYZ xdeg ydeg zdeg posXYZ w =
     Inr (setUniform d ''model'' (UMat4 (spec_transform scaleXYZ xdeg ydeg zdeg posXYZ)) w)"
  by (simp add: setDepthModel_def spec_transform_def Let_def setMat4Value_def deref_def
        glm_rotate_axis)

lemmas colour_ops = SetShaderColor_def SetTextureUVScale_def

lemma model_draws_uniform_mat4:
  "name \<noteq> ''model'' \<Longrightarrow>
   model_draws m (Shader_set p name (uniform_mat4 v) # cs) = model_draws m cs"
  by (cases v) simp_all

lemma RenderShadowMap_draws:
  assumes "m_shadowFBO s \<noteq> 0" and "m_pDepthShaderManager s = Some d"
  shows "\<exists>s' w'. RenderShadowMap lightPosition lightDirection (s, w) = Inr (s', w') \<and>
      model_draws None (emitted w w') =
        [(Some (spec_transform (Vec3 20.0 1.0 10.0) 0.0 0.0 0.0 (Vec3 0.0 0.0 0.0)), DrawPlaneMesh),
         (Some (spec_transform (Vec3 2.6 0.02 2.6) 0.0 0.0 0.0 (Vec3 0.0 0.0 0.0)),
          DrawCylinderMesh True True True),
         (Some (spec_transform (Vec3 2.6 0.03 2.6) 0.0 0.0 0.0 (Vec3 0.0 0.03 0.0)),
          DrawCylinderMesh False True True),
         (Some (spec_transform (Vec3 1.5 2.0 1.5) 180.0 0.0 0.0 (Vec3 0.0 2.10 0.0)),
          DrawTaperedCylinderMesh True False True),
         (Some (spec_transform (Vec3 1.46 1.96 1.46) 180.0 0.0 0.0 (Vec3 0.0 2.11 0.0)),
          DrawTaperedCylinderMesh False False True),
         (Some (spec_transform (Vec3 1.30 0.01 1.30) 0.5 0.0 0.3 (Vec3 0.0 1.78 0.0)),
          DrawCylinderMesh True False False),
         (Some (spec_transform (Vec3 1.0 0.1 1.0) 0.0 0.0 0.0 (Vec3 0.0 0.06 0.0)),
          DrawCylinderMesh True True False),
         (Some (spec_transform (Vec3 0.08 2.96 0.08) (- 24.0) (- 18.0) 0.0 (Vec3 (- 0.45) 2.60 (- 0.12))),
          DrawCylinderMesh True True True)]"
  using assms
  by (cases "viewport w")
     (simp add: RenderShadowMap_def Let_def setDepthModel_spec world_ops emitted_def
        model_draws_uniform_mat4)

lemma RenderScene_draws:
  assumes cap: "m_loadedTextures s \<le> texture_capacity" and sh: "m_pShaderManager s = Some p"
  shows "\<exists>w'. RenderScene time s w = Inr w' \<and>
      model_draws None (emitted w w') =
        [(Some (spec_transform (Vec3 20.0 1.0 10.0) 0.0 0.0 0.0 (Vec3 0.0 0.0 0.0)), DrawPlaneMesh),
         (Some (spec_transform (Vec3 2.6 0.02 2.6) 0.0 0.0 0.0 (Vec3 0.0 0.0 0.0)),
          DrawCylinderMesh True True True),
         (Some (spec_transform (Vec3 2.6 0.03 2.6) 0.0 0.0 0.0 (Vec3 0.0 0.03 0.0)),
          DrawCylinderMesh False True True),
         (Some (spec_transform (Vec3 1.5 2.0 1.5) 180.0 0.0 0.0 (Vec3 0.0 2.10 0.0)),
          DrawTaperedCylinderMesh True False True),
         (Some (spec_transform (Vec3 1.46 1.96 1.46) 180.0 0.0 0.0 (Vec3 0.0 2.11 0.0)),
          DrawTaperedCylinderMesh False False True),
         (Some (spec_transform (Vec3 0.08 2.96 0.08) (- 32.25) 150.0 0.0 (Vec3 (- 0.45) 0.25 (- 0.12))),
          DrawCylinderMesh True True True),
         (Some (spec_transform (Vec3 1.30 0.01 1.30) 0.5 0.0 0.3 (Vec3 0.0 1.78 0.0)),
          DrawCylinderMesh True False False),
         (Some (spec_transform (Vec3 1.0 0.1 1.0) 0.0 0.0 0.0 (Vec3 0.0 0.06 0.0)),
          DrawCylinderMesh True True False)] \<and>
      (if m_shadowDepthTexture s = 0
       then filter (is_shadow_binding 0) (emitted w w') = []
       else filter (is_shadow_binding (m_shadowDepthTexture s)) (emitted w w') \<noteq> [])"
proof -
  from SetShaderTexture_returns [OF cap sh, of "''stone''"] obtain slot1 bind1 bs1 where
    stone: "\<And>w. SetShaderTexture ''stone'' s w =
              Inr (setUniform p ''objectTexture'' (USampler2D slot1)
                    (bind1 (glActiveTexture slot1 (setUniform p ''bUseTexture'' (UInt 1) w))))"
      "\<And>w. calls (bind1 w) = calls w @ bs1"
      "\<And>w. uniforms (bind1 w) = uniforms w"
      "filter (is_shadow_binding 0) bs1 = []"
      "\<And>m cs. model_draws m (bs1 @ cs) = model_draws m cs"
    by blast
  from SetShaderTexture_returns [OF cap sh, of "''grass''"] obtain slot2 bind2 bs2 where
    grass: "\<And>w. SetShaderTexture ''grass'' s w =
              Inr (setUniform p ''objectTexture'' (USampler2D slot2)
                    (bind2 (glActiveTexture slot2 (setUniform p ''bUseTexture'' (UInt 1) w))))"
      "\<And>w. calls (bind2 w) = calls w @ bs2"
      "\<And>w. uniforms (bind2 w) = uniforms w"
      "filter (is_shadow_binding 0) bs2 = []"
      "\<And>m cs. model_draws m (bs2 @ cs) = model_draws m cs"
    by blast
  note unfold = RenderScene_def Let_def SetTransformations_spec [OF sh] colour_ops world_ops
    emitted_def sh stone grass model_draws_uniform_mat4
  show ?thesis
  proof (cases "m_shadowDepthTexture s = 0")
    case True
    then show ?thesis
      by (simp add: unfold)
  next
    case False
    then show ?thesis
      by (simp add: unfold)
  qed
qed

lemma filter_is_draw_model_draws: "filter is_draw cs = map snd (model_draws m cs)"
  by (induction m cs rule: model_draws.induct) simp_all

text \<open>
  C2. With the shadow resources and both shader managers present and the registry within
  its capacity, both passes return. The colour pass submits eight draws, each after an
  upload of the matrix of its scale, rotation and translation; the depth pass submits,
  with the same matrix and the same mesh variant, the plane, the saucer, the saucer rim,
  the outer mug, the inner mug, the liquid surface and the mug bottom, and then the
  straw: the same mesh variant, a matrix whose translation has the same x and z and the
  height 2.60 instead of 0.25, and whose rotated and scaled block differs (entry 1,1)
  from that of the colour pass.
\<close>

theorem C2_depth_pass_repeats_colour_pass_transforms:
  assumes "m_shadowFBO s \<noteq> 0" and "m_pDepthShaderManager s = Some d"
    and "m_pShaderManager s = Some p" and "m_loadedTextures s \<le> 16"
  shows "\<exists>s' wd' wc' straw_depth straw_colour.
      RenderShadowMap lightPosition lightDirection (s, wd) = Inr (s', wd') \<and>
      RenderScene time s wc = Inr wc' \<and>
      (let depth = model_draws None (emitted wd wd');
           colour = model_draws None (emitted wc wc')
       in colour =
            [(Some (spec_transform (Vec3 20.0 1.0 10.0) 0.0 0.0 0.0 (Vec3 0.0 0.0 0.0)), DrawPlaneMesh),
             (Some (spec_transform (Vec3 2.6 0.02 2.6) 0.0 0.0 0.0 (Vec3 0.0 0.0 0.0)),
              DrawCylinderMesh True True True),
             (Some (spec_transform (Vec3 2.6 0.03 2.6) 0.0 0.0 0.0 (Vec3 0.0 0.03 0.0)),
              DrawCylinderMesh False True True),
             (Some (spec_transform (Vec3 1.5 2.0 1.5) 180.0 0.0 0.0 (Vec3 0.0 2.10 0.0)),
              DrawTaperedCylinderMesh True False True),
             (Some (spec_transform (Vec3 1.46 1.96 1.46) 180.0 0.0 0.0 (Vec3 0.0 2.11 0.0)),
              DrawTaperedCylinderMesh False False True),
             (Some straw_colour, DrawCylinderMesh True True True),
             (Some (spec_transform (Vec3 1.30 0.01 1.30) 0.5 0.0 0.3 (Vec3 0.0 1.78 0.0)),
              DrawCylinderMesh True False False),
             (Some (spec_transform (Vec3 1.0 0.1 1.0) 0.0 0.0 0.0 (Vec3 0.0 0.06 0.0)),
              DrawCylinderMesh True True False)] \<and>
          depth =
            [colour ! 0, colour ! 1, colour ! 2, colour ! 3, colour ! 4, colour ! 6, colour ! 7,
             (Some straw_depth, DrawCylinderMesh True True True)] \<and>
          straw_colour =
            spec_transform (Vec3 0.08 2.96 0.08) (- 32.25) 150.0 0.0 (Vec3 (- 0.45) 0.25 (- 0.12)) \<and>
          straw_depth =
            spec_transform (Vec3 0.08 2.96 0.08) (- 24.0) (- 18.0) 0.0 (Vec3 (- 0.45) 2.60 (- 0.12)) \<and>
          translation_of straw_colour = Vec3 (- 0.45) 0.25 (- 0.12) \<and>
          translation_of straw_depth = Vec3 (- 0.45) 2.60 (- 0.12) \<and>
          entry11 straw_depth \<noteq> entry11 straw_colour \<and>
          straw_depth \<noteq> straw_colour)"
proof -
  have cap: "m_loadedTextures s \<le> texture_capacity"
    using assms(4) by (simp add: texture_capacity_def)
  from RenderShadowMap_draws [OF assms(1,2), of lightPosition lightDirection wd]
  obtain s' wd' where depth: "RenderShadowMap lightPosition lightDirection (s, wd) = Inr (s', wd')"
    "model_draws None (emitted wd wd') =
        [(Some (spec_transform (Vec3 20.0 1.0 10.0) 0.0 0.0 0.0 (Vec3 0.0 0.0 0.0)), DrawPlaneMesh),
         (Some (spec_transform (Vec3 2.6 0.02 2.6) 0.0 0.0 0.0 (Vec3 0.0 0.0 0.0)),
          DrawCylinderMesh True True True),
         (Some (spec_transform (Vec3 2.6 0.03 2.6) 0.0 0.0 0.0 (Vec3 0.0 0.03 0.0)),
          DrawCylinderMesh False True True),
         (Some (spec_transform (Vec3 1.5 2.0 1.5) 180.0 0.0 0.0 (Vec3 0.0 2.10 0.0)),
          DrawTaperedCylinderMesh True False True),
         (Some (spec_transform (Vec3 1.46 1.96 1.46) 180.0 0.0 0.0 (Vec3 0.0 2.11 0.0)),
          DrawTaperedCylinderMesh False False True),
         (Some (spec_transform (Vec3 1.30 0.01 1.30) 0.5 0.0 0.3 (Vec3 0.0 1.78 0.0)),
          DrawCylinderMesh True False False),
         (Some (spec_transform (Vec3 1.0 0.1 1.0) 0.0 0.0 0.0 (Vec3 0.0 0.06 0.0)),
          DrawCylinderMesh True True False),
         (Some (spec_transform (Vec3 0.08 2.96 0.08) (- 24.0) (- 18.0) 0.0 (Vec3 (- 0.45) 2.60 (- 0.12))),
          DrawCylinderMesh True True True)]"
    by blast
  from RenderScene_draws [OF cap assms(3), of time wc]
  obtain wc' where colour: "RenderScene time s wc = Inr wc'"
    "model_draws None (emitted wc wc') =
        [(Some (spec_transform (Vec3 20.0 1.0 10.0) 0.0 0.0 0.0 (Vec3 0.0 0.0 0.0)), DrawPlaneMesh),
         (Some (spec_transform (Vec3 2.6 0.02 2.6) 0.0 0.0 0.0 (Vec3 0.0 0.0 0.0)),
          DrawCylinderMesh True True True),
         (Some (spec_transform (Vec3 2.6 0.03 2.6) 0.0 0.0 0.0 (Vec3 0.0 0.03 0.0)),
          DrawCylinderMesh False True True),
         (Some (spec_transform (Vec3 1.5 2.0 1.5) 180.0 0.0 0.0 (Vec3 0.0 2.10 0.0)),
          DrawTaperedCylinderMesh True False True),
         (Some (spec_transform (Vec3 1.46 1.96 1.46) 180.0 0.0 0.0 (Vec3 0.0 2.11 0.0)),
          DrawTaperedCylinderMesh False False True),
         (Some (spec_transform (Vec3 0.08 2.96 0.08) (- 32.25) 150.0 0.0 (Vec3 (- 0.45) 0.25 (- 0.12))),
          DrawCylinderMesh True True True),
         (Some (spec_transform (Vec3 1.30 0.01 1.30) 0.5 0.0 0.3 (Vec3 0.0 1.78 0.0)),
          DrawCylinderMesh True False False),
         (Some (spec_transform (Vec3 1.0 0.1 1.0) 0.0 0.0 0.0 (Vec3 0.0 0.06 0.0)),
          DrawCylinderMesh True True False)]"
    by blast
  let ?sc = "spec_transform (Vec3 0.08 2.96 0.08) (- 32.25) 150.0 0.0 (Vec3 (- 0.45) 0.25 (- 0.12))"
  let ?sd = "spec_transform (Vec3 0.08 2.96 0.08) (- 24.0) (- 18.0) 0.0 (Vec3 (- 0.45) 2.60 (- 0.12))"
  have tc: "translation_of ?sc = Vec3 (- 0.45) 0.25 (- 0.12)"
    by (rule translation_of_spec_transform)
  have td: "translation_of ?sd = Vec3 (- 0.45) 2.60 (- 0.12)"
    by (rule translation_of_spec_transform)
  have ec: "entry11 ?sc = 2.96 * cos (- 32.25 * (pi / 180))"
    using entry11_spec_transform [of "0.08" "2.96" "0.08" "- 32.25" "150.0" "- 0.45" "0.25" "- 0.12"]
    by simp
  have ed: "entry11 ?sd = 2.96 * cos (- 24.0 * (pi / 180))"
    using entry11_spec_transform [of "0.08" "2.96" "0.08" "- 24.0" "- 18.0" "- 0.45" "2.60" "- 0.12"]
    by simp
  have ne: "entry11 ?sd \<noteq> entry11 ?sc"
    using straw_rotations_differ unfolding ec ed by simp
  then have ne': "?sd \<noteq> ?sc"
    by auto
  show ?thesis
    apply (rule exI [of _ s'], rule exI [of _ wd'], rule exI [of _ wc'])
    apply (rule exI [of _ ?sd], rule exI [of _ ?sc])
    unfolding Let_def depth(2) colour(2)
    using depth(1) colour(1) tc td ne ne' by simp
qed

theorem C2_depth_pass_witness:
  "m_shadowFBO SceneManager_prepared \<noteq> 0 \<and>
   m_pDepthShaderManager SceneManager_prepared = Some 2 \<and>
   m_pShaderManager SceneManager_prepared = Some 1 \<and>
   m_loadedTextures SceneManager_prepared \<le> 16 \<and>
   (\<exists>s' wd' wc'.
      RenderShadowMap (Vec3 2 6 2) (Vec3 0 (- 0.5) (- 2)) (SceneManager_prepared, World_initial) =
        Inr (s', wd') \<and>
      RenderScene 0 SceneManager_prepared World_initial = Inr wc' \<and>
      take 5 (model_draws None (emitted World_initial wd')) =
        take 5 (model_draws None (emitted World_initial wc')) \<and>
      map snd (model_draws None (emitted World_initial wd')) =
        [DrawPlaneMesh, DrawCylinderMesh True True True, DrawCylinderMesh False True True,
         DrawTaperedCylinderMesh True False True, DrawTaperedCylinderMesh False False True,
         DrawCylinderMesh True False False, DrawCylinderMesh True True False,
         DrawCylinderMesh True True True])"
proof -
  have h: "m_shadowFBO SceneManager_prepared \<noteq> 0"
    "m_pDepthShaderManager SceneManager_prepared = Some 2"
    "m_pShaderManager SceneManager_prepared = Some 1"
    "m_loadedTextures SceneManager_prepared \<le> 16"
    by (simp_all add: SceneManager_prepared_def SceneManager_ctor_def)
  from C2_depth_pass_repeats_colour_pass_transforms
    [OF h, of "Vec3 2 6 2" "Vec3 0 (- 0.5) (- 2)" World_initial 0 World_initial]
  show ?thesis
    using h by (auto simp add: Let_def)
qed

section \<open>The light-space matrix\<close>









text \<open>
  The perspective matrix of the shadow pass divides by the aspect, by the tangent of
  half the field of view and by far - near: by 1, by the tangent of 24 degrees and by
  79.95, none of them zero.
\<close>

lemma perspective_divisors:
  "(2048 :: real) / 2048 = 1 \<and> 0 < tan (glm_radians 48.0 / 2) \<and> (80.0 :: real) - 0.05 = 79.95"
proof -
  have "0 < tan (glm_radians 48.0 / 2)"
    by (rule tan_gt_zero) (simp_all add: glm_radians_def)
  then show ?thesis
    by simp
qed





section \<open>The shadow pass and the graphics state\<close>

text \<open>
  C4. With the shadow framebuffer and the depth-only shader present, \<open>RenderShadowMap\<close>
  returns; the framebuffer calls it has made are one bind of the shadow framebuffer and
  one bind of 0; the viewport calls are one query, one switch to the shadow map's size
  and one restore of the queried rectangle; afterwards the viewport is the one before
  the call and framebuffer 0 is bound. Nothing else is queried or put back: the depth
  test is enabled and stays so, and the framebuffer bound before the call is not
  remembered. The active texture unit, the texture bindings, the depth mask, the
  uniforms of every other shader program and every member of the scene manager but the
  light-space matrix are as before.
\<close>

theorem C4_shadow_pass_saves_and_restores:
  assumes "m_shadowFBO s \<noteq> 0" and "m_pDepthShaderManager s = Some d"
  shows "\<exists>s' w'. RenderShadowMap lightPosition lightDirection (s, w) = Inr (s', w') \<and>
      filter is_framebuffer_call (emitted w w') =
        [GL_BindFramebuffer (m_shadowFBO s), GL_BindFramebuffer 0] \<and>
      filter is_viewport_call (emitted w w') =
        [GL_GetViewport,
         GL_Viewport 0 0 (m_shadowMapWidth s) (m_shadowMapHeight s),
         (case viewport w of (x, y, width, height) \<Rightarrow> GL_Viewport x y width height)] \<and>
      viewport w' = viewport w \<and>
      framebuffer w' = 0 \<and>
      depthTest w' = True \<and>
      activeTexture w' = activeTexture w \<and>
      texture2D w' = texture2D w \<and>
      depthMask w' = depthMask w \<and>
      (\<forall>p. p \<noteq> d \<longrightarrow> uniforms w' p = uniforms w p) \<and>
      s' = s\<lparr>m_spotLightSpaceMatrix := m_spotLightSpaceMatrix s'\<rparr>"
  using assms
  by (cases "viewport w")
     (simp add: RenderShadowMap_def Let_def setDepthModel_spec world_ops emitted_def)

theorem C4_shadow_pass_witness:
  "m_shadowFBO SceneManager_prepared \<noteq> 0 \<and>
   m_pDepthShaderManager SceneManager_prepared = Some 2 \<and>
   (\<exists>s' w'. RenderShadowMap (Vec3 2 6 2) (Vec3 0 (- 1) 0) (SceneManager_prepared, World_initial) =
        Inr (s', w') \<and>
      filter is_framebuffer_call (emitted World_initial w') =
        [GL_BindFramebuffer 1, GL_BindFramebuffer 0] \<and>
      filter is_viewport_call (emitted World_initial w') =
        [GL_GetViewport, GL_Viewport 0 0 2048 2048, GL_Viewport 0 0 1000 800] \<and>
      viewport w' = (0, 0, 1000, 800) \<and>
      framebuffer w' = 0)"
proof -
  have h: "m_shadowFBO SceneManager_prepared \<noteq> 0"
    "m_pDepthShaderManager SceneManager_prepared = Some 2"
    by (simp_all add: SceneManager_prepared_def SceneManager_ctor_def)
  have v: "viewport World_initial = (0, 0, 1000, 800)"
    "m_shadowFBO SceneManager_prepared = 1"
    "m_shadowMapWidth SceneManager_prepared = 2048"
    "m_shadowMapHeight SceneManager_prepared = 2048"
    by (simp_all add: World_initial_def SceneManager_prepared_def SceneManager_ctor_def)
  from C4_shadow_pass_saves_and_restores [OF h, of "Vec3 2 6 2" "Vec3 0 (- 1) 0" World_initial]
  show ?thesis
    using h by (auto simp add: v)
qed

text \<open>
  C5. When the shadow framebuffer handle is 0 or the depth-only shader pointer is
  null, \<open>RenderShadowMap\<close> returns the scene manager and the context it was given: no
  call is made and the stored light-space matrix is as before. When the shadow depth
  texture is 0, on a scene manager with a shader manager and a registry within its
  capacity, \<open>RenderScene\<close> returns having made no call that binds texture 0 and no upload
  of \<open>spotShadowMap\<close> or \<open>spotLightSpaceMatrix\<close>, and having submitted all eight mesh draws
  of the frame.
\<close>

theorem C5_missing_shadow_resources_are_skipped:
  "(m_shadowFBO s = 0 \<or> m_pDepthShaderManager s = None \<longrightarrow>
      RenderShadowMap lightPosition lightDirection (s, w) = Inr (s, w)) \<and>
   (m_shadowDepthTexture s = 0 \<and> m_pShaderManager s = Some p \<and> m_loadedTextures s \<le> 16 \<longrightarrow>
      (\<exists>w'. RenderScene time s w = Inr w' \<and>
         filter (is_shadow_binding (m_shadowDepthTexture s)) (emitted w w') = [] \<and>
         filter is_draw (emitted w w') =
           [DrawPlaneMesh,
            DrawCylinderMesh True True True,
            DrawCylinderMesh False True True,
            DrawTaperedCylinderMesh True False True,
            DrawTaperedCylinderMesh False False True,
            DrawCylinderMesh True True True,
            DrawCylinderMesh True False False,
            DrawCylinderMesh True True False]))"
proof (intro conjI impI)
  assume "m_shadowFBO s = 0 \<or> m_pDepthShaderManager s = None"
  then show "RenderShadowMap lightPosition lightDirection (s, w) = Inr (s, w)"
    by (auto simp add: RenderShadowMap_def)
next
  assume a: "m_shadowDepthTexture s = 0 \<and> m_pShaderManager s = Some p \<and> m_loadedTextures s \<le> 16"
  then have cap: "m_loadedTextures s \<le> texture_capacity" and sh: "m_pShaderManager s = Some p"
    and tex: "m_shadowDepthTexture s = 0"
    by (simp_all add: texture_capacity_def)
  from RenderScene_draws [OF cap sh, of time w] tex obtain w' where
    run: "RenderScene time s w = Inr w'" and
    draws: "map snd (model_draws None (emitted w w')) =
           [DrawPlaneMesh,
            DrawCylinderMesh True True True,
            DrawCylinderMesh False True True,
            DrawTaperedCylinderMesh True False True,
            DrawTaperedCylinderMesh False False True,
            DrawCylinderMesh True True True,
            DrawCylinderMesh True False False,
            DrawCylinderMesh True True False]" and
    none: "filter (is_shadow_binding 0) (emitted w w') = []"
    by auto
  show "\<exists>w'. RenderScene time s w = Inr w' \<and>
         filter (is_shadow_binding (m_shadowDepthTexture s)) (emitted w w') = [] \<and>
         filter is_draw (emitted w w') =
           [DrawPlaneMesh,
            DrawCylinderMesh True True True,
            DrawCylinderMesh False True True,
            DrawTaperedCylinderMesh True False True,
            DrawTaperedCylinderMesh False False True,
            DrawCylinderMesh True True True,
            DrawCylinderMesh True False False,
            DrawCylinderMesh True True False]"
    using run draws none tex filter_is_draw_model_draws [of "emitted w w'" None] by simp
qed

theorem C5_missing_shadow_resources_witness:
  "(m_shadowFBO (SceneManager_ctor (Some 1) (\<lambda>i. 0)) = 0 \<or>
      m_pDepthShaderManager (SceneManager_ctor (Some 1) (\<lambda>i. 0)) = None) \<and>
   RenderShadowMap (Vec3 2 6 2) (Vec3 0 (- 1) 0) (SceneManager_ctor (Some 1) (\<lambda>i. 0), World_initial) =
     Inr (SceneManager_ctor (Some 1) (\<lambda>i. 0), World_initial) \<and>
   m_shadowDepthTexture (SceneManager_ctor (Some 1) (\<lambda>i. 0)) = 0 \<and>
   m_pShaderManager (SceneManager_ctor (Some 1) (\<lambda>i. 0)) = Some 1 \<and>
   m_loadedTextures (SceneManager_ctor (Some 1) (\<lambda>i. 0)) \<le> 16 \<and>
   (\<exists>w'. RenderScene 0 (SceneManager_ctor (Some 1) (\<lambda>i. 0)) World_initial = Inr w' \<and>
      filter (is_shadow_binding 0) (emitted World_initial w') = [] \<and>
      length (filter is_draw (emitted World_initial w')) = 8)"
proof -
  let ?s = "SceneManager_ctor (Some 1) (\<lambda>i. 0)"
  have h: "m_shadowFBO ?s = 0" "m_pDepthShaderManager ?s = None"
    "m_shadowDepthTexture ?s = 0" "m_pShaderManager ?s = Some 1" "m_loadedTextures ?s \<le> 16"
    by (simp_all add: SceneManager_ctor_def)
  from C5_missing_shadow_resources_are_skipped
    [of ?s "Vec3 2 6 2" "Vec3 0 (- 1) 0" World_initial 1 0]
  show ?thesis
    using h by auto
qed

end
